theory Spec2Isabelle
  imports Complex_Main
begin

section \<open>Shared data: arrays, errors\<close>

text \<open>
  The Python sources (\<open>deepmd_jax/md.py\<close>, \<open>examples/simulate.py\<close>) compute on
  floating-point arrays. Floats are idealised as \<open>real\<close> throughout; every property
  below that depends on a numeric value has a margin far above rounding error, and the
  idealisation is named where it is used.
\<close>

datatype error =
    ValueError string
  | NotImplementedError string
  | AttributeError string
  | TypeError string
  | IndexError
  | ZeroDivisionError
  | ShapeError

text \<open>An array as the box argument can be: a scalar, a vector, or a matrix (list of rows).\<close>

datatype ndarray = Scalar real | Vec "real list" | Mat "real list list"

fun shape :: "ndarray \<Rightarrow> nat list" where
  "shape (Scalar x) = []"
| "shape (Vec v) = [length v]"
| "shape (Mat m) = [length m, (case m of [] \<Rightarrow> 0 | r # _ \<Rightarrow> length r)]"

definition size_of :: "ndarray \<Rightarrow> nat" where
  "size_of a = prod_list (shape a)"

text \<open>\<open>box.item()\<close>: the single element of an array of size 1.\<close>

fun item :: "ndarray \<Rightarrow> real" where
  "item (Scalar x) = x"
| "item (Vec v) = hd v"
| "item (Mat m) = hd (hd m)"

text \<open>\<open>jnp.diag\<close> of a matrix: its main diagonal.\<close>

definition diag_of :: "real list list \<Rightarrow> real list" where
  "diag_of m = map (\<lambda>j. (m ! j) ! j) [0..<length m]"

text \<open>\<open>(box == jnp.diag(jnp.diag(box))).all()\<close> on a matrix: every off-diagonal entry is 0.\<close>

definition is_diagonal :: "real list list \<Rightarrow> bool" where
  "is_diagonal m =
     list_all (\<lambda>i. list_all (\<lambda>j. i = j \<or> (m ! i) ! j = 0) [0..<length (m ! i)]) [0..<length m]"

section \<open>Unit-conversion constants\<close>

text \<open>\<open>md.py\<close> lines 9-11.\<close>

definition mass_unit_convertion :: real where
  "mass_unit_convertion = 1.036427 * 10 ^ 2"

definition temperature_unit_convertion :: real where
  "temperature_unit_convertion = 8.617333 / 10 ^ 5"

definition pressure_unit_convertion :: real where
  "pressure_unit_convertion = 6.241509 / 10 ^ 7"

text \<open>\<open>simulate.py\<close> lines 34-35: the script's own temperature (350 Kelvin) and masses (AMU),
  converted in place with literals written out at the use site.\<close>

definition simulate_temp :: real where
  "simulate_temp = 350 * (8.61733 / 10 ^ 5)"

definition simulate_mass :: "real list" where
  "simulate_mass = map (\<lambda>m. m * (1.036427 * 10 ^ 2)) [15.9994, 1.00784]"

section \<open>Mode selection\<close>

text \<open>\<open>md.py\<close> lines 30-34.\<close>

definition check_if_use_neighbor_list :: "ndarray \<Rightarrow> real \<Rightarrow> bool" where
  "check_if_use_neighbor_list box rcut = (if shape box = [3, 3] then False else False)"

record 'l static_args =
  type_count :: "nat list"
  use_neighbor_list :: bool
  lattice :: "'l option"

text \<open>
  \<open>md.py\<close> lines 20-28. \<open>compute_lattice_candidate\<close> lives in \<open>deepmd_jax.data\<close>, which is
  not among the sources; it is the parameter \<open>clc\<close> (applied to the box and the radius).
\<close>

definition get_static_args ::
  "(ndarray \<Rightarrow> real \<Rightarrow> 'l) \<Rightarrow> real \<Rightarrow> nat list \<Rightarrow> ndarray \<Rightarrow> 'l static_args" where
  "get_static_args clc rcut_maybe_with_buffer tc box =
     (let use_nl = check_if_use_neighbor_list box rcut_maybe_with_buffer in
      if use_nl
      then \<lparr>type_count = tc, use_neighbor_list = True, lattice = None\<rparr>
      else \<lparr>type_count = tc, use_neighbor_list = False,
            lattice = Some (clc box rcut_maybe_with_buffer)\<rparr>)"

text \<open>
  The decision rule in the words of the specification: neighbor-list mode exactly when the
  box is orthorhombic (given by its three side lengths) and twice the cutoff is less than
  the shortest side.
\<close>

definition spec_use_neighbor_list :: "ndarray \<Rightarrow> real \<Rightarrow> bool" where
  "spec_use_neighbor_list box rcut =
     (case box of Vec v \<Rightarrow> length v = 3 \<and> list_all (\<lambda>l. 2 * rcut < l) v | _ \<Rightarrow> False)"

section \<open>The \<open>Simulation\<close> class (\<open>md.py\<close> lines 36-165)\<close>

type_synonym vec = "real \<times> real \<times> real"

text \<open>Class attributes, lines 37-42.\<close>

definition step_chunk_size :: nat where "step_chunk_size = 10"
definition report_interval :: nat where "report_interval = 100"
definition dr_buffer_neighbor :: real where "dr_buffer_neighbor = 0.8"
definition dr_buffer_lattice :: real where "dr_buffer_lattice = 1"
definition neighbor_buffer_size :: real where "neighbor_buffer_size = 1.2"

text \<open>The arguments of \<open>Simulation.__init__\<close>; \<open>routine_args\<close> is the keyword dictionary.\<close>

record init_args =
  type_idx :: "nat list"
  box :: ndarray
  position :: "vec list"
  mass :: "real list"
  routine :: string
  dt :: real
  velocity :: "vec list option"
  init_temperature :: "real option"
  routine_args :: "string \<rightharpoonup> real"

text \<open>What \<open>load_model\<close> (in \<open>utils\<close>, not among the sources) yields and the constructor reads.\<close>

record model_params =
  params_ntypes :: nat
  params_rcut :: real

text \<open>
  The fields the constructor sets, and the mass and temperature it hands to the
  integrator's \<open>init_fn\<close> (an external of \<open>jax_md\<close>). The result of the final
  \<open>self.state.set(velocity=velocity)\<close> is not assigned in the source, so it leaves no field.
\<close>

record 'l simulation =
  self_dt :: real
  self_routine :: string
  self_routine_args :: "string \<rightharpoonup> real"
  self_mass :: "real list"
  self_type_count :: "nat list"
  self_reference_box :: "real list"
  self_static_args :: "'l static_args"
  self_temperature :: "real option"
  self_pressure :: "real option"
  init_mass :: "real list"
  init_kT :: real

text \<open>Python's \<open>p in s\<close> on strings: \<open>p\<close> occurs in \<open>s\<close> as a contiguous substring.\<close>

fun str_in :: "string \<Rightarrow> string \<Rightarrow> bool" where
  "str_in p [] = (p = [])"
| "str_in p (c # cs) = (take (length p) (c # cs) = p \<or> str_in p cs)"

text \<open>\<open>np.bincount\<close> on non-negative integers: one count per value from 0 to the maximum.\<close>

definition bincount :: "nat list \<Rightarrow> nat list" where
  "bincount xs = (if xs = [] then [] else map (count_list xs) [0..<Suc (fold max xs 0)])"

text \<open>
  Lines 66-70: \<open>self.reference_box\<close> is assigned for a box of size 1 and for a diagonal
  3x3 matrix, and in no other case.
\<close>

definition reference_box_of :: "ndarray \<Rightarrow> real list option" where
  "reference_box_of b =
     (let r1 = (if size_of b = 1 then Some (replicate 3 (item b)) else None) in
      case b of
        Mat m \<Rightarrow> if shape b = [3, 3] \<and> is_diagonal m then Some (diag_of m) else r1
      | _ \<Rightarrow> r1)"

text \<open>The parameters of \<open>energy_fn\<close>, line 14.\<close>

definition energy_fn_parameters :: "string list" where
  "energy_fn_parameters = [''coord'', ''cell'', ''nbrs_nm'', ''static_args'']"

text \<open>
  Lines 113-121. \<open>init_fn\<close> of \<open>jax_md\<close> takes the key, the position, \<open>mass\<close> and \<open>kT\<close>
  for itself and evaluates the energy function at the position with every other keyword
  argument it was given: \<open>nbrs\<close>, \<open>static_args\<close>, \<open>cell\<close>, and \<open>box\<close> under NPT.
\<close>

definition init_fn_keywords :: "init_args \<Rightarrow> string list" where
  "init_fn_keywords a =
     [''nbrs'', ''static_args'', ''cell''] @ (if str_in ''NPT'' (routine a) then [''box''] else [])"

text \<open>
  A Python call with one positional argument and keywords \<open>kws\<close>: a keyword that is no
  parameter of the function raises \<open>TypeError\<close>, and so does a parameter left without an
  argument.
\<close>

definition call_energy_fn :: "string list \<Rightarrow> error + unit" where
  "call_energy_fn kws =
     (case filter (\<lambda>k. k \<notin> set energy_fn_parameters) kws of
        k # unused \<Rightarrow> Inl (TypeError k)
      | [] \<Rightarrow>
          (case filter (\<lambda>p. p \<notin> set (''coord'' # kws)) energy_fn_parameters of
             p # unused \<Rightarrow> Inl (TypeError p)
           | [] \<Rightarrow> Inr ()))"

text \<open>
  Lines 109-121: the call of \<open>init_fn\<close>, and the values the constructor has set and passed
  on if that call returns.
\<close>

definition finish_init ::
  "init_args \<Rightarrow> real list \<Rightarrow> nat list \<Rightarrow> real list \<Rightarrow> 'l static_args \<Rightarrow>
   (string \<rightharpoonup> real) \<Rightarrow> real option \<Rightarrow> real option \<Rightarrow> error + 'l simulation" where
  "finish_init a m tc rbox sa ra temp pres =
     (case call_energy_fn (init_fn_keywords a) of
        Inl e \<Rightarrow> Inl e
      | Inr u \<Rightarrow>
          Inr \<lparr>self_dt = dt a, self_routine = routine a, self_routine_args = ra, self_mass = m,
               self_type_count = tc, self_reference_box = rbox, self_static_args = sa,
               self_temperature = temp, self_pressure = pres,
               init_mass = map (\<lambda>x. x * mass_unit_convertion) m,
               init_kT = (case init_temperature a of Some t \<Rightarrow> t | None \<Rightarrow> 0)
                         * temperature_unit_convertion\<rparr>)"

text \<open>Lines 89-108: the dispatch on the routine name.\<close>

definition init_routine ::
  "init_args \<Rightarrow> real list \<Rightarrow> nat list \<Rightarrow> real list \<Rightarrow> 'l static_args \<Rightarrow>
   error + 'l simulation" where
  "init_routine a m tc rbox sa =
     (let ra = routine_args a in
      if routine a = ''NVE'' then finish_init a m tc rbox sa ra None None
      else if routine a = ''NVT_Nose_Hoover'' then
        (case ra ''temperature'' of
           None \<Rightarrow> Inl (ValueError ''temperature for NVT_Nose_Hoover'')
         | Some t \<Rightarrow>
             finish_init a m tc rbox sa
               ((ra(''temperature'' := None))(''kT'' \<mapsto> t * temperature_unit_convertion))
               (Some t) None)
      else if routine a = ''NPT_Nose_Hoover'' then
        (case ra ''temperature'' of
           None \<Rightarrow> Inl (ValueError ''temperature for NPT_Nose_Hoover'')
         | Some t \<Rightarrow>
             (case ra ''pressure'' of
                None \<Rightarrow> Inl (ValueError ''pressure for NPT_Nose_Hoover'')
              | Some p \<Rightarrow>
                  finish_init a m tc rbox sa
                    ((ra(''temperature'' := None))
                       (''kT'' \<mapsto> t * temperature_unit_convertion,
                        ''pressure'' \<mapsto> p * pressure_unit_convertion))
                    (Some t) (Some p)))
      else Inl (NotImplementedError ''routine''))"

text \<open>
  \<open>Simulation.__init__\<close>, lines 43-123, with every raise of its own as an \<open>Inl\<close>, in the
  order of the source: the velocity check (54), indexing the masses by type (60), padding
  the type counts to the model's number of types (64), reading \<open>self.reference_box\<close>
  where no assignment set it (73/78), \<open>self.position\<close> that no line assigns (87), the
  routine dispatch (89-108), and the call of \<open>init_fn\<close> (113), which hands the keyword
  \<open>nbrs\<close> to an energy function whose parameter is \<open>nbrs_nm\<close>. Loading the model, the
  lattice candidates and the constructors of \<open>jax_md\<close> are taken to return.
\<close>

definition Simulation_init ::
  "(ndarray \<Rightarrow> real \<Rightarrow> 'l) \<Rightarrow> model_params \<Rightarrow> init_args \<Rightarrow> error + 'l simulation" where
  "Simulation_init clc mp a =
     (if velocity a = None \<and> init_temperature a = None
      then Inl (ValueError ''provide velocity or init_temperature'')
      else if \<not> list_all (\<lambda>t. t < length (mass a)) (type_idx a) then Inl IndexError
      else
        let m = map (\<lambda>t. mass a ! t) (type_idx a);
            tc0 = bincount (type_idx a)
        in if params_ntypes mp < length tc0 then Inl (ValueError ''negative pad width'')
           else
             let tc = tc0 @ replicate (params_ntypes mp - length tc0) 0 in
             case reference_box_of (box a) of
               None \<Rightarrow> Inl (AttributeError ''reference_box'')
             | Some rbox \<Rightarrow>
                 let sa = (if str_in ''NPT'' (routine a)
                           then get_static_args clc (params_rcut mp + dr_buffer_lattice) tc (Vec rbox)
                           else get_static_args clc (params_rcut mp) tc (Vec rbox))
                 in if use_neighbor_list sa then Inl (AttributeError ''position'')
                    else init_routine a m tc rbox sa)"







subsection \<open>The overflow checks and the inner step (lines 125-165)\<close>

definition check_lattice_overflow :: "vec list \<Rightarrow> real list \<Rightarrow> bool" where
  "check_lattice_overflow pos b = False"

definition check_hard_overflow :: "real list option \<Rightarrow> bool" where
  "check_hard_overflow b = (if b = None then False else False)"

definition check_soft_overflow :: "vec list \<Rightarrow> vec list \<Rightarrow> real list \<Rightarrow> bool" where
  "check_soft_overflow pos ref_position b = False"

text \<open>The integrator's state and the neighbor list, as far as the inner step reads them.\<close>

record md_state =
  st_position :: "vec list"
  st_velocity :: "vec list"
  st_box :: "real list"

record 'nm neighbors =
  idx :: "int list list"
  reference_position :: "vec list"
  did_buffer_overflow :: bool
  nbrs_nm :: 'nm

type_synonym 'nm step_carry = "md_state \<times> 'nm neighbors option \<times> (bool \<times> bool \<times> bool)"

text \<open>
  \<open>inner_step\<close> of \<open>get_inner_step\<close>, lines 143-164. \<open>update\<close> is the neighbor list's own
  \<open>update\<close> method and \<open>apply_fn\<close> the integrator's step, both external. \<open>jax.lax.cond\<close>
  is the conditional. Reading \<open>nbrs.reference_position\<close> when \<open>nbrs\<close> is \<open>None\<close> raises.
\<close>

definition inner_step ::
  "('nm neighbors \<Rightarrow> vec list \<Rightarrow> real list option \<Rightarrow> 'nm neighbors) \<Rightarrow>
   (md_state \<Rightarrow> real list \<Rightarrow> 'nm option \<Rightarrow> 'l static_args \<Rightarrow> md_state) \<Rightarrow>
   'l simulation \<Rightarrow> 'nm step_carry \<Rightarrow> error + 'nm step_carry \<times> (vec list \<times> vec list)" where
  "inner_step update apply_fn sim states =
     (case states of (state, nbrs, overflow) \<Rightarrow>
      let npt = str_in ''NPT'' (self_routine sim);
          npt_box = (if npt then Some (st_box state) else None);
          current_box = (if npt then st_box state else self_reference_box sim)
      in (case nbrs of
           None \<Rightarrow> Inl (AttributeError ''reference_position'')
         | Some nb \<Rightarrow>
            (let soft_overflow =
                   check_soft_overflow (st_position state) (reference_position nb) current_box;
                 nb' = (if soft_overflow then update nb (st_position state) npt_box else nb);
                 use_nl = use_neighbor_list (self_static_args sim);
                 state' = apply_fn state current_box
                            (if use_nl then Some (nbrs_nm nb') else None) (self_static_args sim)
             in (case overflow of (is_nbr, is_lattice, is_hard) \<Rightarrow>
                let overflow' =
                      (if use_nl
                       then (is_nbr \<or> did_buffer_overflow nb', is_lattice,
                             is_hard \<or> check_hard_overflow npt_box)
                       else (is_nbr,
                             is_lattice \<or> check_lattice_overflow (st_position state') current_box,
                             is_hard))
                in Inr ((state', Some nb', overflow'), (st_position state', st_velocity state'))))))"

text \<open>\<open>jax.lax.scan(f, init, None, length)\<close>: \<open>length\<close> steps in order, the outputs collected.\<close>

fun scan :: "('c \<Rightarrow> error + 'c \<times> 'y) \<Rightarrow> 'c \<Rightarrow> nat \<Rightarrow> error + 'c \<times> 'y list" where
  "scan f c 0 = Inr (c, [])"
| "scan f c (Suc n) =
     (case f c of
        Inl e \<Rightarrow> Inl e
      | Inr (c', y) \<Rightarrow>
          (case scan f c' n of Inl e \<Rightarrow> Inl e | Inr (c'', ys) \<Rightarrow> Inr (c'', y # ys)))"

text \<open>
  One chunk of \<open>Simulation.run\<close>, lines 171-177: the chunk length, the initial carry and
  the scan. (The rest of \<open>run\<close> in the source is unfinished.)
\<close>

definition run_chunk ::
  "('nm neighbors \<Rightarrow> vec list \<Rightarrow> real list option \<Rightarrow> 'nm neighbors) \<Rightarrow>
   (md_state \<Rightarrow> real list \<Rightarrow> 'nm option \<Rightarrow> 'l static_args \<Rightarrow> md_state) \<Rightarrow>
   'l simulation \<Rightarrow> nat \<Rightarrow> md_state \<Rightarrow> 'nm neighbors \<Rightarrow>
   error + 'nm step_carry \<times> (vec list \<times> vec list) list" where
  "run_chunk update apply_fn sim step state nbrs =
     (let next_chunk = min (report_interval - step mod report_interval)
                           (step_chunk_size - step mod step_chunk_size);
          states = (state,
                    if use_neighbor_list (self_static_args sim) then Some nbrs else None,
                    (False, False, False))
      in scan (inner_step update apply_fn sim) states next_chunk)"

section \<open>Type/device partitioner and \<open>NeighborList\<close> (\<open>md.py\<close> lines 192-251)\<close>

text \<open>
  Atom indices and counts are Python integers: \<open>int\<close>, whose \<open>div\<close> and \<open>mod\<close> round
  toward minus infinity as \<open>//\<close> and \<open>%\<close> do. \<open>K\<close> is \<open>jax.device_count()\<close> and
  \<open>Kmask\<close> the result of \<open>get_mask_by_device(type_count)\<close> (in \<open>utils\<close>, not among the
  sources): one flag per row of an index table. Placing an array on devices does not
  change its values. \<open>md.py\<close> uses \<open>space\<close>, \<open>partition\<close>, \<open>lax\<close>, \<open>split\<close>,
  \<open>reorder_by_device\<close> and \<open>get_mask_by_device\<close> without importing them; they are read
  with the meaning they have in \<open>jax_md\<close>, \<open>jax\<close> and the repository's \<open>utils\<close>.
\<close>

fun cumsum_from :: "int \<Rightarrow> int list \<Rightarrow> int list" where
  "cumsum_from a [] = []"
| "cumsum_from a (x # xs) = (a + x) # cumsum_from (a + x) xs"

definition cumsum :: "int list \<Rightarrow> int list" where
  "cumsum xs = cumsum_from 0 xs"

text \<open>Line 196, \<open>-(-type_count//K)\<close>; line 197; line 198.\<close>

definition type_count_new :: "int list \<Rightarrow> int \<Rightarrow> int list" where
  "type_count_new tc K = map (\<lambda>t. - ((- t) div K)) tc"

definition type_idx_filled_each :: "int list \<Rightarrow> int \<Rightarrow> int list" where
  "type_idx_filled_each tc K = cumsum (0 # type_count_new tc K)"

definition N_each :: "int list \<Rightarrow> int \<Rightarrow> int" where
  "N_each tc K = last (type_idx_filled_each tc K)"


text \<open>Lines 202-203 without the row factor \<open>Kmask[:,None]\<close>: the test on one entry.\<close>

definition type_cond :: "int list \<Rightarrow> int \<Rightarrow> nat \<Rightarrow> int \<Rightarrow> bool" where
  "type_cond tc K i x =
     (let f = type_idx_filled_each tc K; n = N_each tc K in
      (f ! i \<le> x mod n \<and> x mod n < f ! (i + 1))
      \<and> (x - f ! i - (x div n) * (n - type_count_new tc K ! i) < tc ! i
         \<and> x < n * K))"

text \<open>
  Modelled from the spec: \<open>reorder_by_device\<close> (\<open>utils\<close>) is missing from the sources.
  "Device sharding splits the atom dimension into contiguous blocks; indices are remapped
  into block-local coordinates with per-block offsets" (4.3), the atoms being "stored
  grouped contiguously by type" (3). Every device holds a block of \<open>N_each\<close> slots, in it
  \<open>type_count_new ! i\<close> slots for type \<open>i\<close> from the offset \<open>type_idx_filled_each ! i\<close>,
  and atom \<open>j\<close> of type \<open>i\<close> is the \<open>j mod (type_count_new ! i)\<close>-th of its type on
  device \<open>j div (type_count_new ! i)\<close>. Line 248 of \<open>get_nm\<close> is the inverse of this map.
\<close>

definition slot_of :: "int list \<Rightarrow> int \<Rightarrow> nat \<Rightarrow> int \<Rightarrow> int" where
  "slot_of tc K i j =
     (j div (type_count_new tc K ! i)) * N_each tc K + type_idx_filled_each tc K ! i
     + j mod (type_count_new tc K ! i)"



text \<open>
  A column of shape (M,1) against a table of R rows: numpy pairs them row by row when
  \<open>M = R\<close>, repeats the single one when \<open>M = 1\<close> or \<open>R = 1\<close>, and raises otherwise.
\<close>

definition broadcast_rows :: "'a list \<Rightarrow> 'b list \<Rightarrow> ('a \<times> 'b) list option" where
  "broadcast_rows ks rows =
     (if length ks = length rows then Some (zip ks rows)
      else if length ks = 1 then Some (map (\<lambda>r. (hd ks, r)) rows)
      else if length rows = 1 then Some (map (\<lambda>k. (k, hd rows)) ks)
      else None)"








text \<open>Python's float \<open>%\<close>: the remainder has the sign of the divisor.\<close>

definition py_fmod :: "real \<Rightarrow> real \<Rightarrow> real" where
  "py_fmod x y = x - y * of_int \<lfloor>x / y\<rfloor>"

definition vec_map :: "(real \<Rightarrow> real \<Rightarrow> real) \<Rightarrow> vec \<Rightarrow> vec \<Rightarrow> vec" where
  "vec_map f a b = (case a of (a1, a2, a3) \<Rightarrow> case b of (b1, b2, b3) \<Rightarrow> (f a1 b1, f a2 b2, f a3 b3))"




text \<open>
  \<open>check_dr_overflow\<close>, lines 237-239: per atom, the norm of
  \<open>(coord - ref - box/2) % box - box/2\<close> against \<open>dr_buffer/2 - 0.01\<close>.
\<close>

definition norm3 :: "vec \<Rightarrow> real" where
  "norm3 v = (case v of (x, y, z) \<Rightarrow> sqrt (x\<^sup>2 + y\<^sup>2 + z\<^sup>2))"

definition wrapped :: "vec \<Rightarrow> vec \<Rightarrow> vec \<Rightarrow> vec" where
  "wrapped bx c r =
     vec_map (\<lambda>d l. py_fmod (d - l / 2) l - l / 2) (vec_map (\<lambda>x y. x - y) c r) bx"

definition check_dr_overflow :: "vec \<Rightarrow> vec list \<Rightarrow> vec list \<Rightarrow> real \<Rightarrow> error + bool" where
  "check_dr_overflow bx coord ref dr_buffer =
     (case broadcast_rows coord ref of
        None \<Rightarrow> Inl ShapeError
      | Some prs \<Rightarrow>
          Inr (list_ex (\<lambda>(c, r). dr_buffer / 2 - 1 / 100 < norm3 (wrapped bx c r)) prs))"

text \<open>
  The criterion in the words of the specification. A displacement \<open>d\<close> in a periodic box
  has the periodic images \<open>d + (k1*Lx, k2*Ly, k3*Lz)\<close>; its minimum-image length exceeds \<open>t\<close> when
  every image is longer than \<open>t\<close>.
\<close>

definition periodic_image :: "vec \<Rightarrow> vec \<Rightarrow> int \<times> int \<times> int \<Rightarrow> vec" where
  "periodic_image bx d k =
     (case k of (k1, k2, k3) \<Rightarrow>
        vec_map (\<lambda>x y. x + y) d (vec_map (\<lambda>x y. x * y) (of_int k1, of_int k2, of_int k3) bx))"

definition min_image_exceeds :: "vec \<Rightarrow> vec list \<Rightarrow> vec list \<Rightarrow> real \<Rightarrow> bool" where
  "min_image_exceeds bx coord ref t =
     (\<exists>i < length coord. \<forall>k. t < norm3 (periodic_image bx (vec_map (\<lambda>x y. x - y) (coord ! i) (ref ! i)) k))"

definition spec_dr_overflow :: "vec \<Rightarrow> vec list \<Rightarrow> vec list \<Rightarrow> real \<Rightarrow> bool" where
  "spec_dr_overflow bx coord ref dr_buffer = min_image_exceeds bx coord ref (dr_buffer / 2)"

definition positive_box :: "vec \<Rightarrow> bool" where
  "positive_box bx = (case bx of (lx, ly, lz) \<Rightarrow> 0 < lx \<and> 0 < ly \<and> 0 < lz)"








section \<open>The simulation script's step loop (\<open>simulate.py\<close> lines 117-181)\<close>

text \<open>
  The script's settings that the loop reads (lines 36-39, and the box and the per-atom
  buffer radii of lines 61 and 89).
\<close>

record config =
  total_steps :: nat
  print_every :: nat
  save_every :: nat
  use_neighborlist :: bool
  use_model_devi :: bool
  sim_box :: vec
  rbuffer_array :: "real list"

text \<open>
  What the loop calls and does not define: the integrator's \<open>apply_fn\<close> (\<open>jax_md\<close>), the
  model deviation (the potential), and \<open>NeighborListLoader\<close> with its \<open>allocate\<close> and
  \<open>update\<close> (\<open>deepmd_jax.simulation_utils\<close>, not among the sources). A loader is made
  from a buffer size, the constructor's other arguments being fixed by the script. The
  neighbor list is a list of per-type lists.
\<close>

record ('nm, 'ld) externals =
  apply_fn :: "md_state \<Rightarrow> 'nm neighbors list option \<Rightarrow> md_state"
  compute_model_devi :: "vec list \<Rightarrow> 'nm neighbors list option \<Rightarrow> real"
  NeighborListLoader :: "real \<Rightarrow> 'ld"
  loader_allocate :: "'ld \<Rightarrow> vec list \<Rightarrow> 'nm neighbors list"
  loader_update :: "'ld \<Rightarrow> vec list \<Rightarrow> 'nm neighbors list \<Rightarrow> 'nm neighbors list"

text \<open>A \<open>jax.lax.scan\<close> whose step cannot raise.\<close>

fun scan_pure :: "('c \<Rightarrow> 'c \<times> 'y) \<Rightarrow> 'c \<Rightarrow> nat \<Rightarrow> 'c \<times> 'y list" where
  "scan_pure f c 0 = (c, [])"
| "scan_pure f c (Suc n) =
     (case f c of (c', y) \<Rightarrow> (case scan_pure f c' n of (c'', ys) \<Rightarrow> (c'', y # ys)))"

text \<open>\<open>step_fn\<close>, lines 117-120.\<close>

definition step_fn ::
  "('nm, 'ld) externals \<Rightarrow> md_state \<times> 'nm neighbors list option \<Rightarrow>
   (md_state \<times> 'nm neighbors list option) \<times> (vec list \<times> vec list)" where
  "step_fn ext states =
     (case states of (state, nbrs) \<Rightarrow>
        let state' = apply_fn ext state nbrs
        in ((state', nbrs), (st_position state', st_velocity state')))"

text \<open>\<open>x % jnp.diag(box)\<close> on positions.\<close>

definition wrap_positions :: "vec \<Rightarrow> vec list \<Rightarrow> vec list" where
  "wrap_positions bx ps = map (\<lambda>p. vec_map py_fmod p bx) ps"

text \<open>
  Line 126, \<open>rcut_overflow\<close>: some atom, at some step of the multi-step, is farther from
  where it started than half its buffer radius. All arrays are over the same atoms.
\<close>

definition rcut_overflow_of :: "vec \<Rightarrow> real list \<Rightarrow> vec list \<Rightarrow> vec list list \<Rightarrow> bool" where
  "rcut_overflow_of bx rbuf start pos =
     list_ex (\<lambda>frame. list_ex (\<lambda>((c, r), b). b / 2 < norm3 (wrapped bx c r))
                         (zip (zip start frame) rbuf)) pos"

text \<open>\<open>multi_step_fn\<close> of \<open>get_multi_step_fn(steps)\<close>, lines 122-127; \<open>ld\<close> is the global
  \<open>neighborlist\<close>.\<close>

definition multi_step_fn ::
  "config \<Rightarrow> ('nm, 'ld) externals \<Rightarrow> 'ld \<Rightarrow> nat \<Rightarrow> md_state \<times> 'nm neighbors list \<Rightarrow>
   (md_state \<times> 'nm neighbors list) \<times> (vec list list \<times> vec list list \<times> bool)" where
  "multi_step_fn cfg ext ld steps states =
     (case states of (state, nbrs_list) \<Rightarrow>
        let nbrs_list' = loader_update ext ld (wrap_positions (sim_box cfg) (st_position state))
                           nbrs_list
        in case scan_pure (step_fn ext) (state, Some nbrs_list') steps of
             ((state_new, unused), outs) \<Rightarrow>
               let pos = map fst outs; vel = map snd outs;
                   rcut_overflow =
                     rcut_overflow_of (sim_box cfg) (rbuffer_array cfg) (st_position state) pos
               in ((state_new, nbrs_list'), (pos, vel, rcut_overflow)))"

text \<open>What the loop prints, in order.\<close>

datatype event =
    Report nat
  | SecondOverflow real
  | RcutError
  | RcutDecrease nat

text \<open>
  The variables of the loop, lines 85-91 and 129-133. \<open>multi_step_every\<close> is the step count
  the current \<open>multi_step_fn\<close> was built with; \<open>neighborlist\<close> is the loader object.
\<close>

record ('nm, 'ld) loop_state =
  cur_i :: nat
  NBRS_FLAG :: bool
  buffer_size :: real
  update_every :: nat
  multi_step_every :: nat
  cur_state :: md_state
  nbrs_list :: "'nm neighbors list"
  neighborlist :: "'ld"
  model_devi :: real
  pos_traj :: "vec list list list"
  vel_traj :: "vec list list list"
  model_devi_traj :: "real list"
  printed :: "event list"

datatype flow = Fallthrough | Continue | Break

text \<open>\<open>xs[start::step]\<close> for a positive step.\<close>

definition slice_from :: "nat \<Rightarrow> nat \<Rightarrow> 'a list \<Rightarrow> 'a list" where
  "slice_from start step xs =
     map (\<lambda>k. xs ! (start + k * step)) [0..<(length xs - start + step - 1) div step]"

text \<open>Lines 176-178: what is appended for a finished chunk. A slice step of 0 raises.\<close>

definition append_chunk ::
  "config \<Rightarrow> ('nm, 'ld) loop_state \<Rightarrow> vec list list \<Rightarrow> vec list list \<Rightarrow>
   error + flow \<times> ('nm, 'ld) loop_state" where
  "append_chunk cfg s pos vel =
     (if save_every cfg = 0 then Inl (ValueError ''slice step cannot be zero'')
      else Inr (Fallthrough,
        s\<lparr>pos_traj := pos_traj s @ [slice_from (save_every cfg - 1) (save_every cfg) pos],
          vel_traj := vel_traj s @ [slice_from (save_every cfg - 1) (save_every cfg) pos],
          model_devi_traj := model_devi_traj s @ [model_devi s]\<rparr>))"

text \<open>Lines 135-146: the periodic report, which also refreshes \<open>model_devi\<close>.\<close>

definition report ::
  "config \<Rightarrow> ('nm, 'ld) externals \<Rightarrow> ('nm, 'ld) loop_state \<Rightarrow> ('nm, 'ld) loop_state" where
  "report cfg ext s =
     (if cur_i s mod print_every cfg < (if use_neighborlist cfg then update_every s else 1)
      then s\<lparr>model_devi :=
                 (if use_model_devi cfg
                  then compute_model_devi ext (st_position (cur_state s))
                         (if use_neighborlist cfg then Some (nbrs_list s) else None)
                  else 0),
               printed := printed s @ [Report (cur_i s)]\<rparr>
      else s)"

text \<open>Lines 153-162: the branch taken when some list of the chunk's result overflowed.\<close>

definition on_buffer_overflow ::
  "config \<Rightarrow> ('nm, 'ld) externals \<Rightarrow> ('nm, 'ld) loop_state \<Rightarrow> ('nm, 'ld) loop_state" where
  "on_buffer_overflow cfg ext s =
     (let s' = (if NBRS_FLAG s
                then (let b = buffer_size s + 0.05;
                          discarded = NeighborListLoader ext b
                      in s\<lparr>NBRS_FLAG := False, buffer_size := b,
                            printed := printed s @ [SecondOverflow b]\<rparr>)
                else s\<lparr>NBRS_FLAG := True\<rparr>)
      in s'\<lparr>nbrs_list := loader_allocate ext (neighborlist s')
                              (wrap_positions (sim_box cfg) (st_position (cur_state s')))\<rparr>)"

text \<open>
  One pass through the body of \<open>while i < total_steps\<close>, lines 135-178, with how it ends.
  The modulus and the quotient by zero raise.
\<close>

definition loop_body ::
  "config \<Rightarrow> ('nm, 'ld) externals \<Rightarrow> ('nm, 'ld) loop_state \<Rightarrow>
   error + flow \<times> ('nm, 'ld) loop_state" where
  "loop_body cfg ext s0 =
     (if print_every cfg = 0 then Inl ZeroDivisionError
      else
        let s = report cfg ext s0 in
        if \<not> use_neighborlist cfg then
          (case scan_pure (step_fn ext) (cur_state s, None) (print_every cfg) of
             ((state', unused), outs) \<Rightarrow>
               append_chunk cfg (s\<lparr>cur_state := state', cur_i := cur_i s + print_every cfg\<rparr>)
                 (map fst outs) (map snd outs))
        else if update_every s = 0 then Inl ZeroDivisionError
        else
          (case scan_pure (multi_step_fn cfg ext (neighborlist s) (multi_step_every s))
                  (cur_state s, nbrs_list s) (print_every cfg div update_every s) of
             ((state_new, nbrs_list_new), outs) \<Rightarrow>
               if list_ex did_buffer_overflow nbrs_list_new
               then Inr (Continue, on_buffer_overflow cfg ext s)
               else
                 let s1 = s\<lparr>NBRS_FLAG := False\<rparr> in
                 if list_ex (\<lambda>(pos, vel, rcut_overflow). rcut_overflow) outs then
                   (if update_every s1 = 1
                    then Inr (Break, s1\<lparr>printed := printed s1 @ [RcutError]\<rparr>)
                    else
                      let u = max (update_every s1 div 2) 1
                      in Inr (Continue,
                              s1\<lparr>update_every := u, multi_step_every := u,
                                 printed := printed s1 @ [RcutDecrease u]\<rparr>))
                 else
                   append_chunk cfg
                     (s1\<lparr>cur_state := state_new, nbrs_list := nbrs_list_new,
                         cur_i := cur_i s1
                                  + update_every s1 * (print_every cfg div update_every s1)\<rparr>)
                     (concat (map (\<lambda>(pos, vel, rcut_overflow). pos) outs))
                     (concat (map (\<lambda>(pos, vel, rcut_overflow). vel) outs))))"

text \<open>
  The loop, lines 134-178, run for at most \<open>fuel\<close> passes: \<open>None\<close> when the passes are
  used up before the loop ends.
\<close>

fun run_loop ::
  "nat \<Rightarrow> config \<Rightarrow> ('nm, 'ld) externals \<Rightarrow> ('nm, 'ld) loop_state \<Rightarrow>
   (error + ('nm, 'ld) loop_state) option" where
  "run_loop 0 cfg ext s = (if cur_i s < total_steps cfg then None else Some (Inr s))"
| "run_loop (Suc fuel) cfg ext s =
     (if cur_i s < total_steps cfg then
        (case loop_body cfg ext s of
           Inl e \<Rightarrow> Some (Inl e)
         | Inr (Break, s') \<Rightarrow> Some (Inr s')
         | Inr (_, s') \<Rightarrow> run_loop fuel cfg ext s')
      else Some (Inr s))"

text \<open>
  Lines 85-91 and 129-133: the variables before the loop in neighbor-list mode, from the
  integrator's initial state, whose positions are the initial coordinates
  (\<open>update_every, buffer_size = 5, 1.2\<close>). In lattice mode the script builds no loader and
  no list, and the loop reads neither.
\<close>

definition initial_loop_state ::
  "config \<Rightarrow> ('nm, 'ld) externals \<Rightarrow> md_state \<Rightarrow> ('nm, 'ld) loop_state" where
  "initial_loop_state cfg ext state =
     (let ld = NeighborListLoader ext 1.2 in
      \<lparr>cur_i = 0, NBRS_FLAG = False, buffer_size = 1.2, update_every = 5, multi_step_every = 5,
       cur_state = state,
       nbrs_list = loader_allocate ext ld (wrap_positions (sim_box cfg) (st_position state)),
       neighborlist = ld, model_devi = 0, pos_traj = [], vel_traj = [], model_devi_traj = [],
       printed = []\<rparr>)"

text \<open>
  Lines 179-181: the two arrays saved under \<open>_pos\<close> and \<open>_vel\<close>; concatenating no arrays
  raises.
\<close>

definition save_trajectory ::
  "('nm, 'ld) loop_state \<Rightarrow> error + vec list list \<times> vec list list" where
  "save_trajectory s =
     (if pos_traj s = [] then Inl (ValueError ''need at least one array to concatenate'')
      else Inr (concat (pos_traj s), concat (vel_traj s)))"

text \<open>The script from the loop to the saved files: \<open>(pos file, vel file)\<close>.\<close>

definition simulate ::
  "nat \<Rightarrow> config \<Rightarrow> ('nm, 'ld) externals \<Rightarrow> ('nm, 'ld) loop_state \<Rightarrow>
   (error + vec list list \<times> vec list list) option" where
  "simulate fuel cfg ext s =
     (case run_loop fuel cfg ext s of
        None \<Rightarrow> None
      | Some (Inl e) \<Rightarrow> Some (Inl e)
      | Some (Inr s') \<Rightarrow> Some (save_trajectory s'))"

section \<open>Concrete inputs\<close>



text \<open>A constructed simulation in neighbor-list mode, one atom, with its state and list.\<close>

definition example_sim :: "unit simulation" where
  "example_sim =
     \<lparr>self_dt = 0.48, self_routine = ''NVE'', self_routine_args = Map.empty,
      self_mass = [15.9994], self_type_count = [1], self_reference_box = [10, 10, 10],
      self_static_args = \<lparr>type_count = [1], use_neighbor_list = True, lattice = None\<rparr>,
      self_temperature = None, self_pressure = None,
      init_mass = [15.9994 * mass_unit_convertion], init_kT = 0\<rparr>"

definition example_state :: md_state where
  "example_state = \<lparr>st_position = [(1, 2, 3)], st_velocity = [(1, 0, 0)], st_box = [10, 10, 10]\<rparr>"

definition example_nbrs :: "nat neighbors" where
  "example_nbrs =
     \<lparr>idx = [[1]], reference_position = [(0, 0, 0)], did_buffer_overflow = False, nbrs_nm = 0\<rparr>"

text \<open>An integrator step that moves the atom, and a neighbor update that would leave a
  trace (a new reference position, a counter) if it were ever called.\<close>

definition example_apply :: "md_state \<Rightarrow> real list \<Rightarrow> nat option \<Rightarrow> unit static_args \<Rightarrow> md_state" where
  "example_apply s b nm sa =
     s\<lparr>st_position := map (\<lambda>(x, y, z). (x + 1, y, z)) (st_position s)\<rparr>"

definition example_update :: "nat neighbors \<Rightarrow> vec list \<Rightarrow> real list option \<Rightarrow> nat neighbors" where
  "example_update nb pos b = nb\<lparr>reference_position := pos, nbrs_nm := Suc (nbrs_nm nb)\<rparr>"

text \<open>One component of \<open>wrapped\<close>: a displacement \<open>d\<close> folded into a box side \<open>l\<close>.\<close>

definition wrap1 :: "real \<Rightarrow> real \<Rightarrow> real" where
  "wrap1 d l = py_fmod (d - l / 2) l - l / 2"

text \<open>One atom that has moved 0.395 along x from the origin; the box has side 10 and the
  buffer is 0.8, so half the buffer is 0.4.\<close>

definition example_drift :: "vec list" where
  "example_drift = [(0.395, 0, 0)]"

definition example_origin :: "vec list" where
  "example_origin = [(0, 0, 0)]"

text \<open>
  A run of the script's loop on one atom in a box of side 10: five steps, a report and a
  chunk every five steps, every second frame saved, buffer radius 2. The integrator adds
  the velocity to the position; the loader is identified with the buffer size it was made
  from and stamps that size on the lists it allocates; its update sets the overflow flag of
  every list to \<open>ovf\<close>.
\<close>

definition example_config :: config where
  "example_config =
     \<lparr>total_steps = 5, print_every = 5, save_every = 2, use_neighborlist = True,
      use_model_devi = False, sim_box = (10, 10, 10), rbuffer_array = [2]\<rparr>"

definition example_externals :: "bool \<Rightarrow> (real, real) externals" where
  "example_externals ovf =
     \<lparr>apply_fn = (\<lambda>st nb. st\<lparr>st_position := map (\<lambda>(p, v). vec_map (\<lambda>x y. x + y) p v)
                                                  (zip (st_position st) (st_velocity st))\<rparr>),
      compute_model_devi = (\<lambda>p nb. 0),
      NeighborListLoader = (\<lambda>b. b),
      loader_allocate = (\<lambda>ld pos. [\<lparr>idx = [], reference_position = pos,
                                      did_buffer_overflow = False, nbrs_nm = ld\<rparr>]),
      loader_update = (\<lambda>ld pos nbrs. map (\<lambda>nb. nb\<lparr>did_buffer_overflow := ovf\<rparr>) nbrs)\<rparr>"

definition example_start :: md_state where
  "example_start = \<lparr>st_position = [(0, 0, 0)], st_velocity = [(0.1, 0, 0)], st_box = [10, 10, 10]\<rparr>"

text \<open>
  The same run with buffer radius 0.1, which a single step of length 0.1 overruns, and the
  loop's variables after the first and the second halving of \<open>update_every\<close>.
\<close>

definition tight_config :: config where
  "tight_config = example_config\<lparr>rbuffer_array := [0.1]\<rparr>"

definition tight_state_2 :: "(real, real) loop_state" where
  "tight_state_2 =
     \<lparr>cur_i = 0, NBRS_FLAG = False, buffer_size = 1.2, update_every = 2, multi_step_every = 2,
      cur_state = example_start,
      nbrs_list = [\<lparr>idx = [], reference_position = [(0, 0, 0)], did_buffer_overflow = False,
                    nbrs_nm = 1.2\<rparr>],
      neighborlist = 1.2, model_devi = 0, pos_traj = [], vel_traj = [], model_devi_traj = [],
      printed = [Report 0, RcutDecrease 2]\<rparr>"

definition tight_state_1 :: "(real, real) loop_state" where
  "tight_state_1 =
     tight_state_2\<lparr>update_every := 1, multi_step_every := 1,
       printed := [Report 0, RcutDecrease 2, Report 0, RcutDecrease 1]\<rparr>"

text \<open>The loop's variables of the first run after one pass that met a buffer overflow.\<close>

definition flagged_state :: "(real, real) loop_state" where
  "flagged_state =
     (initial_loop_state example_config (example_externals True) example_start)
       \<lparr>NBRS_FLAG := True, printed := [Report 0]\<rparr>"

















section \<open>Theorems\<close>

text \<open>
  C8 (evaluated on the code). The mass constant is the same at both use sites, but the
  temperature literal in \<open>simulate.py\<close> is \<open>8.61733e-5\<close>, not \<open>8.617333e-5\<close>: the
  script's temperature differs from 350 Kelvin converted with the library's constant.
\<close>

theorem C8_temperature_constant_differs:
  "simulate_temp \<noteq> 350 * temperature_unit_convertion
   \<and> simulate_temp = 350 * temperature_unit_convertion - 105 / 10 ^ 10
   \<and> simulate_mass = map (\<lambda>m. m * mass_unit_convertion) [15.9994, 1.00784]"
  by (simp add: simulate_temp_def temperature_unit_convertion_def simulate_mass_def
      mass_unit_convertion_def)

text \<open>
  C2 (evaluated on the code). For an orthorhombic box of side 10 and cutoff 2 the
  specification's rule selects neighbor-list mode; the mode-selection function returns
  False, and so do the static arguments built from it.
\<close>

theorem C2_orthorhombic_box_gets_lattice_mode:
  "spec_use_neighbor_list (Vec [10, 10, 10]) 2 = True
   \<and> check_if_use_neighbor_list (Vec [10, 10, 10]) 2 = False
   \<and> use_neighbor_list (get_static_args clc 2 tc (Vec [10, 10, 10])) = False"
  by (simp add: spec_use_neighbor_list_def check_if_use_neighbor_list_def get_static_args_def)

subsection \<open>The inner step never refreshes the neighbor list\<close>

lemma inner_step_keeps_nbrs:
  assumes "inner_step upd app sim (st, nb, ov) = Inr ((st', nb', ov'), out)"
  shows "nb' = nb"
  using assms
  by (auto simp: inner_step_def check_soft_overflow_def Let_def split: option.splits prod.splits)

lemma scan_inner_step_keeps_nbrs:
  "scan (inner_step upd app sim) (st, nb, ov) n = Inr ((st', nb', ov'), outs) \<Longrightarrow> nb' = nb"
proof (induction n arbitrary: st ov outs)
  case 0
  then show ?case by simp
next
  case (Suc n)
  from Suc.prems obtain st1 nb1 ov1 y ys where
    one: "inner_step upd app sim (st, nb, ov) = Inr ((st1, nb1, ov1), y)"
    and rest: "scan (inner_step upd app sim) (st1, nb1, ov1) n = Inr ((st', nb', ov'), ys)"
    by (auto split: sum.splits prod.splits)
  from inner_step_keeps_nbrs [OF one] have "nb1 = nb" .
  with rest Suc.IH show ?case by blast
qed

lemma next_chunk_positive:
  "0 < min (report_interval - step mod report_interval) (step_chunk_size - step mod step_chunk_size)"
  by (simp add: report_interval_def step_chunk_size_def)

lemma scan_positive_start:
  "0 < n \<Longrightarrow> scan (inner_step upd app sim) (st, None, ov) n = Inl (AttributeError ''reference_position'')"
  by (cases n) (simp_all add: inner_step_def Let_def)

text \<open>
  C10. \<open>check_soft_overflow\<close> is False on every input; the inner step does not depend on
  the neighbor list's update function; and whenever the inner step, or a whole chunk of
  \<open>Simulation.run\<close>, returns, the neighbor list in the carry is the one it started with.
\<close>

theorem C10_neighbor_table_never_refreshed:
  "check_soft_overflow pos ref_position b = False
   \<and> inner_step upd app sim c = inner_step upd' app sim c
   \<and> (\<forall>st nb ov st' nb' ov' out.
         inner_step upd app sim (st, nb, ov) = Inr ((st', nb', ov'), out) \<longrightarrow> nb' = nb)
   \<and> (\<forall>step st nbrs st' nb' ov' outs.
         run_chunk upd app sim step st nbrs = Inr ((st', nb', ov'), outs) \<longrightarrow> nb' = Some nbrs)"
proof (intro conjI allI impI)
  show "check_soft_overflow pos ref_position b = False"
    by (simp add: check_soft_overflow_def)
  show "inner_step upd app sim c = inner_step upd' app sim c"
    by (simp add: inner_step_def check_soft_overflow_def Let_def split: prod.splits option.splits)
next
  fix st nb ov st' nb' ov' out
  assume "inner_step upd app sim (st, nb, ov) = Inr ((st', nb', ov'), out)"
  then show "nb' = nb" by (rule inner_step_keeps_nbrs)
next
  fix step st nbrs st' nb' ov' outs
  assume r: "run_chunk upd app sim step st nbrs = Inr ((st', nb', ov'), outs)"
  show "nb' = Some nbrs"
  proof (cases "use_neighbor_list (self_static_args sim)")
    case True
    with r show ?thesis
      by (auto simp: run_chunk_def Let_def dest: scan_inner_step_keeps_nbrs)
  next
    case False
    with r show ?thesis
      by (simp add: run_chunk_def Let_def scan_positive_start [OF next_chunk_positive])
  qed
qed

lemma example_chunk:
  "run_chunk example_update example_apply example_sim 8 example_state example_nbrs =
     Inr ((example_state\<lparr>st_position := [(3, 2, 3)]\<rparr>, Some example_nbrs, (False, False, False)),
          [([(2, 2, 3)], [(1, 0, 0)]), ([(3, 2, 3)], [(1, 0, 0)])])"
  by (simp add: run_chunk_def report_interval_def step_chunk_size_def numeral_2_eq_2
      inner_step_def check_soft_overflow_def check_hard_overflow_def example_sim_def
      example_state_def example_nbrs_def example_apply_def Let_def)

text \<open>C10 on a chunk of two steps: the atom moves, the neighbor list is untouched.\<close>

theorem C10_neighbor_table_never_refreshed_witness:
  "run_chunk example_update example_apply example_sim 8 example_state example_nbrs =
     Inr ((example_state\<lparr>st_position := [(3, 2, 3)]\<rparr>, Some example_nbrs, (False, False, False)),
          [([(2, 2, 3)], [(1, 0, 0)]), ([(3, 2, 3)], [(1, 0, 0)])])
   \<and> Some example_nbrs \<noteq> Some (example_update example_nbrs [(1, 2, 3)] None)"
  using example_chunk
    C10_neighbor_table_never_refreshed [of "[]" "[]" "[]" example_update example_apply example_sim
      "(example_state, None, (False, False, False))" example_update]
  by (simp add: example_update_def example_nbrs_def)

subsection \<open>The drift check\<close>

lemma py_fmod_range:
  assumes "0 < y"
  shows "0 \<le> py_fmod x y" and "py_fmod x y < y"
proof -
  have le: "of_int \<lfloor>x / y\<rfloor> \<le> x / y" by simp
  have lt: "x / y < of_int \<lfloor>x / y\<rfloor> + 1" by linarith
  from le assms have "of_int \<lfloor>x / y\<rfloor> * y \<le> x"
    by (simp only: pos_le_divide_eq)
  then have "y * of_int \<lfloor>x / y\<rfloor> \<le> x" by (simp only: mult.commute)
  then show "0 \<le> py_fmod x y" by (simp add: py_fmod_def)
  from lt assms have "x < (of_int \<lfloor>x / y\<rfloor> + 1) * y"
    by (simp only: pos_divide_less_eq)
  then show "py_fmod x y < y" by (simp add: py_fmod_def algebra_simps)
qed

lemma wrap1_range:
  assumes "0 < l"
  shows "- l / 2 \<le> wrap1 d l" and "wrap1 d l < l / 2"
  using py_fmod_range [OF assms, of "d - l / 2"] by (simp_all add: wrap1_def)

lemma wrap1_image: "wrap1 d l = d + of_int (- (\<lfloor>(d - l / 2) / l\<rfloor> + 1)) * l"
  by (simp add: wrap1_def py_fmod_def algebra_simps)

lemma wrap1_minimal:
  assumes "0 < l"
  shows "\<bar>wrap1 d l\<bar> \<le> \<bar>d + of_int k * l\<bar>"
proof -
  define k0 where "k0 = - (\<lfloor>(d - l / 2) / l\<rfloor> + 1)"
  define j where "j = k - k0"
  have w: "wrap1 d l = d + of_int k0 * l" unfolding k0_def by (rule wrap1_image)
  have img: "d + of_int k * l = wrap1 d l + of_int j * l"
    by (simp add: w j_def algebra_simps)
  have abs_le: "\<bar>wrap1 d l\<bar> \<le> l / 2"
    using wrap1_range [OF assms, of d] by (simp add: abs_le_iff)
  consider "j = 0" | "1 \<le> j" | "j \<le> - 1" by linarith
  then show ?thesis
  proof cases
    case 1
    then show ?thesis by (simp add: img)
  next
    case 2
    then have "(1::real) \<le> of_int j" by simp
    then have "l \<le> of_int j * l" using assms by simp
    with wrap1_range(1) [OF assms, of d] have "l / 2 \<le> wrap1 d l + of_int j * l" by simp
    with abs_le show ?thesis by (simp add: img)
  next
    case 3
    then have "of_int j \<le> (- 1::real)" by (metis of_int_le_iff of_int_minus of_int_1)
    then have "of_int j * l \<le> - l" using assms
      by (metis mult_le_cancel_right_pos mult_minus1)
    with wrap1_range(2) [OF assms, of d] have "wrap1 d l + of_int j * l \<le> - (l / 2)" by simp
    with abs_le show ?thesis by (simp add: img)
  qed
qed

lemma norm3_mono:
  assumes "\<bar>a1\<bar> \<le> \<bar>b1\<bar>" "\<bar>a2\<bar> \<le> \<bar>b2\<bar>" "\<bar>a3\<bar> \<le> \<bar>b3\<bar>"
  shows "norm3 (a1, a2, a3) \<le> norm3 (b1, b2, b3)"
proof -
  have "a1\<^sup>2 \<le> b1\<^sup>2" "a2\<^sup>2 \<le> b2\<^sup>2" "a3\<^sup>2 \<le> b3\<^sup>2"
    using assms by (simp_all add: abs_le_square_iff)
  then have "a1\<^sup>2 + a2\<^sup>2 + a3\<^sup>2 \<le> b1\<^sup>2 + b2\<^sup>2 + b3\<^sup>2" by linarith
  then show ?thesis by (simp add: norm3_def)
qed

lemma wrapped_components:
  "wrapped (lx, ly, lz) (cx, cy, cz) (rx, ry, rz) =
     (wrap1 (cx - rx) lx, wrap1 (cy - ry) ly, wrap1 (cz - rz) lz)"
  by (simp add: wrapped_def vec_map_def wrap1_def)

lemma image_components:
  "periodic_image (lx, ly, lz) (vec_map (\<lambda>x y. x - y) (cx, cy, cz) (rx, ry, rz)) (k1, k2, k3) =
     (cx - rx + of_int k1 * lx, cy - ry + of_int k2 * ly, cz - rz + of_int k3 * lz)"
  by (simp add: periodic_image_def vec_map_def)

lemma wrapped_is_minimum_image:
  assumes "positive_box bx"
  shows "t < norm3 (wrapped bx c r) \<longleftrightarrow>
         (\<forall>k. t < norm3 (periodic_image bx (vec_map (\<lambda>x y. x - y) c r) k))"
proof -
  obtain lx ly lz where bx: "bx = (lx, ly, lz)" by (cases bx)
  obtain cx cy cz where c: "c = (cx, cy, cz)" by (cases c)
  obtain rx ry rz where r: "r = (rx, ry, rz)" by (cases r)
  from assms bx have pos: "0 < lx" "0 < ly" "0 < lz" by (simp_all add: positive_box_def)
  show ?thesis
  proof
    assume t: "t < norm3 (wrapped bx c r)"
    show "\<forall>k. t < norm3 (periodic_image bx (vec_map (\<lambda>x y. x - y) c r) k)"
    proof
      fix k :: "int \<times> int \<times> int"
      obtain k1 k2 k3 where k: "k = (k1, k2, k3)" by (cases k)
      have "norm3 (wrapped bx c r) \<le> norm3 (periodic_image bx (vec_map (\<lambda>x y. x - y) c r) k)"
        unfolding bx c r k wrapped_components image_components
        by (intro norm3_mono wrap1_minimal pos)
      with t show "t < norm3 (periodic_image bx (vec_map (\<lambda>x y. x - y) c r) k)" by simp
    qed
  next
    assume all: "\<forall>k. t < norm3 (periodic_image bx (vec_map (\<lambda>x y. x - y) c r) k)"
    let ?k = "(- (\<lfloor>(cx - rx - lx / 2) / lx\<rfloor> + 1), - (\<lfloor>(cy - ry - ly / 2) / ly\<rfloor> + 1),
               - (\<lfloor>(cz - rz - lz / 2) / lz\<rfloor> + 1))"
    have "periodic_image bx (vec_map (\<lambda>x y. x - y) c r) ?k = wrapped bx c r"
      unfolding bx c r wrapped_components image_components
      by (simp only: wrap1_image)
    with all [rule_format, of ?k] show "t < norm3 (wrapped bx c r)" by simp
  qed
qed

text \<open>
  C6, as amended. For a box with positive sides and as many reference positions as
  positions, \<open>check_dr_overflow\<close> returns true if and only if some atom's minimum-image
  displacement (the shortest of its periodic images) exceeds half the buffer minus 0.01.
\<close>

theorem C6_check_dr_overflow_threshold:
  assumes "positive_box bx" and "length coord = length ref"
  shows "check_dr_overflow bx coord ref dr_buffer =
           Inr (min_image_exceeds bx coord ref (dr_buffer / 2 - 1 / 100))"
proof -
  have "list_ex (\<lambda>(c, r). dr_buffer / 2 - 1 / 100 < norm3 (wrapped bx c r)) (zip coord ref)
        \<longleftrightarrow> (\<exists>i < length coord. dr_buffer / 2 - 1 / 100 < norm3 (wrapped bx (coord ! i) (ref ! i)))"
  proof
    assume "list_ex (\<lambda>(c, r). dr_buffer / 2 - 1 / 100 < norm3 (wrapped bx c r)) (zip coord ref)"
    then obtain c r where in_zip: "(c, r) \<in> set (zip coord ref)"
      and far: "dr_buffer / 2 - 1 / 100 < norm3 (wrapped bx c r)"
      by (auto simp: list_ex_iff)
    from in_zip obtain i where "i < length coord" "coord ! i = c" "ref ! i = r"
      by (auto simp: in_set_zip)
    with far show "\<exists>i < length coord. dr_buffer / 2 - 1 / 100 < norm3 (wrapped bx (coord ! i) (ref ! i))"
      by blast
  next
    assume "\<exists>i < length coord. dr_buffer / 2 - 1 / 100 < norm3 (wrapped bx (coord ! i) (ref ! i))"
    then obtain i where i: "i < length coord"
      and far: "dr_buffer / 2 - 1 / 100 < norm3 (wrapped bx (coord ! i) (ref ! i))" by blast
    from i assms(2) have "(coord ! i, ref ! i) \<in> set (zip coord ref)"
      by (auto simp: in_set_zip)
    with far show "list_ex (\<lambda>(c, r). dr_buffer / 2 - 1 / 100 < norm3 (wrapped bx c r)) (zip coord ref)"
      by (auto simp: list_ex_iff)
  qed
  also have "\<dots> \<longleftrightarrow> min_image_exceeds bx coord ref (dr_buffer / 2 - 1 / 100)"
    by (simp add: min_image_exceeds_def wrapped_is_minimum_image [OF assms(1)])
  finally show ?thesis
    using assms(2) by (simp add: check_dr_overflow_def broadcast_rows_def)
qed

lemma norm3_axis: "norm3 (x, 0, 0) = \<bar>x\<bar>"
  by (simp add: norm3_def)

lemma example_wrapped: "wrapped (10, 10, 10) (0.395, 0, 0) (0, 0, 0) = (0.395, 0, 0)"
  by (simp add: wrapped_def vec_map_def py_fmod_def)

lemma example_check:
  "check_dr_overflow (10, 10, 10) example_drift example_origin 0.8 = Inr True"
  by (simp add: check_dr_overflow_def broadcast_rows_def example_drift_def example_origin_def
      example_wrapped [simplified] norm3_axis)

text \<open>
  C6 as stated fails: a displacement of 0.395 does not exceed half of the buffer 0.8, and
  \<open>check_dr_overflow\<close> returns true.
\<close>

theorem C6_margin_below_half_buffer:
  "check_dr_overflow (10, 10, 10) example_drift example_origin 0.8 = Inr True
   \<and> \<not> spec_dr_overflow (10, 10, 10) example_drift example_origin 0.8"
proof -
  have "\<not> 0.8 / 2 < norm3 (periodic_image (10, 10, 10)
            (vec_map (\<lambda>x y. x - y) (example_drift ! 0) (example_origin ! 0)) (0, 0, 0))"
    by (simp add: example_drift_def example_origin_def periodic_image_def vec_map_def norm3_axis)
  then have "\<not> spec_dr_overflow (10, 10, 10) example_drift example_origin 0.8"
    unfolding spec_dr_overflow_def min_image_exceeds_def
    by (auto simp: example_drift_def)
  with example_check show ?thesis by simp
qed

text \<open>The amended C6 at the same input: 0.395 exceeds 0.39.\<close>

theorem C6_check_dr_overflow_threshold_witness:
  "positive_box (10, 10, 10) \<and> length example_drift = length example_origin
   \<and> min_image_exceeds (10, 10, 10) example_drift example_origin (0.8 / 2 - 1 / 100)"
proof -
  have p: "positive_box (10, 10, 10)" by (simp add: positive_box_def)
  have l: "length example_drift = length example_origin"
    by (simp add: example_drift_def example_origin_def)
  from C6_check_dr_overflow_threshold [OF p l, of "0.8"] example_check
  have "min_image_exceeds (10, 10, 10) example_drift example_origin (0.8 / 2 - 1 / 100)"
    by simp
  with p l show ?thesis by simp
qed

subsection \<open>The script's step loop\<close>

lemma report_fields [simp]:
  "cur_i (report cfg ext s) = cur_i s"
  "NBRS_FLAG (report cfg ext s) = NBRS_FLAG s"
  "buffer_size (report cfg ext s) = buffer_size s"
  "update_every (report cfg ext s) = update_every s"
  "multi_step_every (report cfg ext s) = multi_step_every s"
  "cur_state (report cfg ext s) = cur_state s"
  "nbrs_list (report cfg ext s) = nbrs_list s"
  "neighborlist (report cfg ext s) = neighborlist s"
  "pos_traj (report cfg ext s) = pos_traj s"
  "vel_traj (report cfg ext s) = vel_traj s"
  by (simp_all add: report_def)

lemma on_buffer_overflow_fields [simp]:
  "cur_i (on_buffer_overflow cfg ext s) = cur_i s"
  "cur_state (on_buffer_overflow cfg ext s) = cur_state s"
  "neighborlist (on_buffer_overflow cfg ext s) = neighborlist s"
  "update_every (on_buffer_overflow cfg ext s) = update_every s"
  "pos_traj (on_buffer_overflow cfg ext s) = pos_traj s"
  "vel_traj (on_buffer_overflow cfg ext s) = vel_traj s"
  "nbrs_list (on_buffer_overflow cfg ext s) =
     loader_allocate ext (neighborlist s) (wrap_positions (sim_box cfg) (st_position (cur_state s)))"
  "multi_step_every (on_buffer_overflow cfg ext s) = multi_step_every s"
  by (simp_all add: on_buffer_overflow_def Let_def)

lemma on_buffer_overflow_second:
  "NBRS_FLAG s \<Longrightarrow> buffer_size (on_buffer_overflow cfg ext s) = buffer_size s + 0.05"
  "NBRS_FLAG s \<Longrightarrow> \<not> NBRS_FLAG (on_buffer_overflow cfg ext s)"
  "NBRS_FLAG s \<Longrightarrow> printed (on_buffer_overflow cfg ext s) = printed s @ [SecondOverflow (buffer_size s + 0.05)]"
  by (simp_all add: on_buffer_overflow_def Let_def)

lemma loop_body_neighborlist:
  assumes "use_neighborlist cfg" "0 < print_every cfg" "0 < update_every s"
    and "scan_pure (multi_step_fn cfg ext (neighborlist s) (multi_step_every s))
           (cur_state s, nbrs_list s) (print_every cfg div update_every s)
         = ((state_new, nbrs_new), outs)"
  shows "loop_body cfg ext s =
     (if list_ex did_buffer_overflow nbrs_new
      then Inr (Continue, on_buffer_overflow cfg ext (report cfg ext s))
      else if list_ex (\<lambda>(pos, vel, rcut_overflow). rcut_overflow) outs
      then (if update_every s = 1
            then Inr (Break, (report cfg ext s)\<lparr>NBRS_FLAG := False,
                    printed := printed (report cfg ext s) @ [RcutError]\<rparr>)
            else Inr (Continue, (report cfg ext s)\<lparr>NBRS_FLAG := False,
                    update_every := max (update_every s div 2) 1,
                    multi_step_every := max (update_every s div 2) 1,
                    printed := printed (report cfg ext s)
                               @ [RcutDecrease (max (update_every s div 2) 1)]\<rparr>))
      else append_chunk cfg
             ((report cfg ext s)\<lparr>NBRS_FLAG := False, cur_state := state_new,
                 nbrs_list := nbrs_new,
                 cur_i := cur_i s + update_every s * (print_every cfg div update_every s)\<rparr>)
             (concat (map (\<lambda>(pos, vel, rcut_overflow). pos) outs))
             (concat (map (\<lambda>(pos, vel, rcut_overflow). vel) outs)))"
  using assms by (simp add: loop_body_def Let_def)

text \<open>
  C4, as amended. In neighbor-list mode, when the chunk the loop body has just run shows a
  buffer overflow or a cutoff-buffer overflow, the body leaves the simulation state, the
  step counter, both trajectories and the loader as they were before the chunk. On a
  buffer overflow it replaces the neighbor lists by lists allocated with the loader at the
  pre-chunk positions, keeps the update interval, and the loop goes on. On a cutoff-buffer
  overflow alone it keeps the lists and, if the update interval is not 1, halves it (and
  the multi-step length with it) and the loop goes on; at update interval 1 it changes
  neither and the loop stops. So the next pass, when there is one, runs the chunk again
  from the pre-chunk state on the reallocated lists or with the halved interval.
\<close>

theorem C4_overflow_discards_chunk:
  assumes nl: "use_neighborlist cfg" and pe: "0 < print_every cfg" and ue: "0 < update_every s"
    and chunk: "scan_pure (multi_step_fn cfg ext (neighborlist s) (multi_step_every s))
           (cur_state s, nbrs_list s) (print_every cfg div update_every s)
         = ((state_new, nbrs_new), outs)"
    and ov: "list_ex did_buffer_overflow nbrs_new
             \<or> list_ex (\<lambda>(pos, vel, rcut_overflow). rcut_overflow) outs"
    and more: "cur_i s < total_steps cfg"
  shows "\<exists>fl s'. loop_body cfg ext s = Inr (fl, s')
           \<and> cur_state s' = cur_state s \<and> cur_i s' = cur_i s
           \<and> pos_traj s' = pos_traj s \<and> vel_traj s' = vel_traj s
           \<and> neighborlist s' = neighborlist s
           \<and> fl = (if \<not> list_ex did_buffer_overflow nbrs_new \<and> update_every s = 1
                    then Break else Continue)
           \<and> nbrs_list s' =
               (if list_ex did_buffer_overflow nbrs_new
                then loader_allocate ext (neighborlist s)
                       (wrap_positions (sim_box cfg) (st_position (cur_state s)))
                else nbrs_list s)
           \<and> update_every s' =
               (if list_ex did_buffer_overflow nbrs_new \<or> update_every s = 1
                then update_every s else max (update_every s div 2) 1)
           \<and> multi_step_every s' =
               (if list_ex did_buffer_overflow nbrs_new \<or> update_every s = 1
                then multi_step_every s else max (update_every s div 2) 1)
           \<and> run_loop (Suc fuel) cfg ext s =
               (if \<not> list_ex did_buffer_overflow nbrs_new \<and> update_every s = 1
                then Some (Inr s') else run_loop fuel cfg ext s')"
  using ov more by (auto simp: loop_body_neighborlist [OF nl pe ue chunk])

lemma append_chunk_trajs:
  "append_chunk cfg s pos vel = Inr (fl, s') \<Longrightarrow> vel_traj s = pos_traj s \<Longrightarrow>
     vel_traj s' = pos_traj s'"
  by (auto simp: append_chunk_def split: if_splits)

lemma loop_body_trajs:
  assumes "loop_body cfg ext s = Inr (fl, s')" and "vel_traj s = pos_traj s"
  shows "vel_traj s' = pos_traj s'"
proof (cases "use_neighborlist cfg")
  case False
  with assms show ?thesis
    by (auto simp: loop_body_def Let_def split: if_splits prod.splits
        dest!: append_chunk_trajs)
next
  case True
  from assms(1) have pe: "0 < print_every cfg" and ue: "0 < update_every s"
    using True by (auto simp: loop_body_def Let_def split: if_splits)
  obtain state_new nbrs_new outs where
    chunk: "scan_pure (multi_step_fn cfg ext (neighborlist s) (multi_step_every s))
           (cur_state s, nbrs_list s) (print_every cfg div update_every s)
         = ((state_new, nbrs_new), outs)"
    by (metis surj_pair)
  from assms show ?thesis
    unfolding loop_body_neighborlist [OF True pe ue chunk]
    by (auto split: if_splits dest!: append_chunk_trajs)
qed

lemma run_loop_trajs:
  "run_loop fuel cfg ext s = Some (Inr s') \<Longrightarrow> vel_traj s = pos_traj s \<Longrightarrow>
     vel_traj s' = pos_traj s'"
proof (induction fuel arbitrary: s)
  case 0
  then show ?case by (auto split: if_splits)
next
  case (Suc fuel)
  show ?case
  proof (cases "cur_i s < total_steps cfg")
    case False
    with Suc.prems show ?thesis by simp
  next
    case True
    with Suc.prems(1) obtain fl s1 where body: "loop_body cfg ext s = Inr (fl, s1)"
      by (auto split: sum.splits)
    from loop_body_trajs [OF body Suc.prems(2)] have inv: "vel_traj s1 = pos_traj s1" .
    show ?thesis
    proof (cases fl)
      case Break
      with True body Suc.prems(1) inv show ?thesis by simp
    next
      case Fallthrough
      with True body Suc.prems(1) have "run_loop fuel cfg ext s1 = Some (Inr s')" by simp
      from Suc.IH [OF this inv] show ?thesis .
    next
      case Continue
      with True body Suc.prems(1) have "run_loop fuel cfg ext s1 = Some (Inr s')" by simp
      from Suc.IH [OF this inv] show ?thesis .
    qed
  qed
qed

text \<open>
  C1 (the code's behaviour). Whenever the script runs to the end and saves, the array
  saved under \<open>_vel\<close> is the array saved under \<open>_pos\<close>: line 177 appends the sampled
  positions to \<open>vel_traj\<close>.
\<close>

theorem C1_vel_file_is_pos_file:
  assumes "simulate fuel cfg ext (initial_loop_state cfg ext state) = Some (Inr (pos_file, vel_file))"
  shows "vel_file = pos_file"
proof -
  from assms obtain s' where
    run: "run_loop fuel cfg ext (initial_loop_state cfg ext state) = Some (Inr s')"
    and saved: "save_trajectory s' = Inr (pos_file, vel_file)"
    by (auto simp: simulate_def split: option.splits sum.splits)
  have "vel_traj (initial_loop_state cfg ext state) = pos_traj (initial_loop_state cfg ext state)"
    by (simp add: initial_loop_state_def Let_def)
  from run_loop_trajs [OF run this] saved show ?thesis
    by (auto simp: save_trajectory_def split: if_splits)
qed

lemma wrapped_axis:
  "wrapped (10, 10, 10) (a, 0, 0) (b, 0, 0) = (wrap1 (a - b) 10, 0, 0)"
  by (simp add: wrapped_def vec_map_def wrap1_def py_fmod_def)

lemma example_apply_fn:
  "apply_fn (example_externals ovf) \<lparr>st_position = [(x, 0, 0)], st_velocity = [(1 / 10, 0, 0)],
       st_box = b\<rparr> nb
   = \<lparr>st_position = [(x + 1 / 10, 0, 0)], st_velocity = [(1 / 10, 0, 0)], st_box = b\<rparr>"
  by (simp add: example_externals_def vec_map_def)

lemma example_steps:
  "scan_pure (step_fn (example_externals ovf)) (example_start, nb) 5 =
     ((example_start\<lparr>st_position := [(1 / 2, 0, 0)]\<rparr>, nb),
      [([(1 / 10, 0, 0)], [(1 / 10, 0, 0)]), ([(1 / 5, 0, 0)], [(1 / 10, 0, 0)]),
       ([(3 / 10, 0, 0)], [(1 / 10, 0, 0)]), ([(2 / 5, 0, 0)], [(1 / 10, 0, 0)]),
       ([(1 / 2, 0, 0)], [(1 / 10, 0, 0)])])"
  by (simp add: eval_nat_numeral step_fn_def example_start_def example_apply_fn Let_def)

lemma example_no_rcut_overflow:
  "rcut_overflow_of (10, 10, 10) [2] [(0, 0, 0)]
     [[(1 / 10, 0, 0)], [(1 / 5, 0, 0)], [(3 / 10, 0, 0)], [(2 / 5, 0, 0)], [(1 / 2, 0, 0)]] = False"
  by (simp add: rcut_overflow_of_def wrapped_axis norm3_axis wrap1_def py_fmod_def)

lemma example_initial:
  "initial_loop_state example_config (example_externals ovf) example_start =
     \<lparr>cur_i = 0, NBRS_FLAG = False, buffer_size = 6 / 5, update_every = 5, multi_step_every = 5,
      cur_state = example_start,
      nbrs_list = [\<lparr>idx = [], reference_position = [(0, 0, 0)], did_buffer_overflow = False,
                    nbrs_nm = 6 / 5\<rparr>],
      neighborlist = 6 / 5, model_devi = 0, pos_traj = [], vel_traj = [], model_devi_traj = [],
      printed = []\<rparr>"
  by (simp add: initial_loop_state_def example_config_def example_externals_def example_start_def
      wrap_positions_def vec_map_def py_fmod_def Let_def)

lemma example_multi_step:
  "multi_step_fn example_config (example_externals ovf) ld 5 (example_start, nbs) =
     ((example_start\<lparr>st_position := [(1 / 2, 0, 0)]\<rparr>,
       map (\<lambda>nb. nb\<lparr>did_buffer_overflow := ovf\<rparr>) nbs),
      ([[(1 / 10, 0, 0)], [(1 / 5, 0, 0)], [(3 / 10, 0, 0)], [(2 / 5, 0, 0)], [(1 / 2, 0, 0)]],
       [[(1 / 10, 0, 0)], [(1 / 10, 0, 0)], [(1 / 10, 0, 0)], [(1 / 10, 0, 0)], [(1 / 10, 0, 0)]],
       False))"
proof -
  have upd: "loader_update (example_externals ovf) ld ps nbs =
      map (\<lambda>nb. nb\<lparr>did_buffer_overflow := ovf\<rparr>) nbs" for ps
    by (simp add: example_externals_def)
  have cfg: "sim_box example_config = (10, 10, 10)" "rbuffer_array example_config = [2]"
    by (simp_all add: example_config_def)
  have st: "st_position example_start = [(0, 0, 0)]" by (simp add: example_start_def)
  show ?thesis
    by (simp add: multi_step_fn_def Let_def upd cfg example_steps st example_no_rcut_overflow)
qed

lemma example_chunk_5:
  "scan_pure (multi_step_fn example_config (example_externals ovf) ld 5) (example_start, nbs) (5 div 5) =
     ((example_start\<lparr>st_position := [(1 / 2, 0, 0)]\<rparr>,
       map (\<lambda>nb. nb\<lparr>did_buffer_overflow := ovf\<rparr>) nbs),
      [([[(1 / 10, 0, 0)], [(1 / 5, 0, 0)], [(3 / 10, 0, 0)], [(2 / 5, 0, 0)], [(1 / 2, 0, 0)]],
        [[(1 / 10, 0, 0)], [(1 / 10, 0, 0)], [(1 / 10, 0, 0)], [(1 / 10, 0, 0)], [(1 / 10, 0, 0)]],
        False)])"
  by (simp add: example_multi_step)

lemma tight_multi_step:
  "multi_step_fn tight_config (example_externals False) ld (Suc n)
     (\<lparr>st_position = [(x, 0, 0)], st_velocity = [(1 / 10, 0, 0)], st_box = b\<rparr>, nbs) =
   (case scan_pure (step_fn (example_externals False))
           (\<lparr>st_position = [(x, 0, 0)], st_velocity = [(1 / 10, 0, 0)], st_box = b\<rparr>,
            Some (map (\<lambda>nb. nb\<lparr>did_buffer_overflow := False\<rparr>) nbs)) (Suc n) of
      ((state_new, unused), outs) \<Rightarrow>
        ((state_new, map (\<lambda>nb. nb\<lparr>did_buffer_overflow := False\<rparr>) nbs),
         (map fst outs, map snd outs, True)))"
proof -
  have upd: "loader_update (example_externals False) ld ps nbs =
      map (\<lambda>nb. nb\<lparr>did_buffer_overflow := False\<rparr>) nbs" for ps
    by (simp add: example_externals_def)
  have cfg: "sim_box tight_config = (10, 10, 10)" "rbuffer_array tight_config = [1 / 10]"
    by (simp_all add: tight_config_def example_config_def)
  show ?thesis
    by (simp add: multi_step_fn_def Let_def upd cfg step_fn_def example_apply_fn
        rcut_overflow_of_def wrapped_axis norm3_axis wrap1_def py_fmod_def split: prod.splits)
qed

lemma multi_step_nbrs:
  "snd (fst (multi_step_fn cfg ext ld k (st, nbs))) =
     loader_update ext ld (wrap_positions (sim_box cfg) (st_position st)) nbs"
  by (simp add: multi_step_fn_def Let_def split: prod.splits)

lemma scan_fst_Suc: "fst (scan_pure f c (Suc n)) = fst (scan_pure f (fst (f c)) n)"
  by (simp split: prod.splits)

lemma scan_multi_nbrs:
  "snd (fst (scan_pure (multi_step_fn cfg (example_externals ovf) ld k) (st, nbs) (Suc n))) =
     map (\<lambda>nb. nb\<lparr>did_buffer_overflow := ovf\<rparr>) nbs"
proof (induction n arbitrary: st nbs)
  case 0
  show ?case unfolding scan_fst_Suc
    by (simp add: multi_step_nbrs) (simp add: example_externals_def)
next
  case (Suc n)
  obtain st' nbs' where f: "fst (multi_step_fn cfg (example_externals ovf) ld k (st, nbs)) = (st', nbs')"
    by (metis surj_pair)
  have nbs': "nbs' = map (\<lambda>nb. nb\<lparr>did_buffer_overflow := ovf\<rparr>) nbs"
    using multi_step_nbrs [of cfg "example_externals ovf" ld k st nbs] f
    by (simp add: example_externals_def)
  have "fst (scan_pure (multi_step_fn cfg (example_externals ovf) ld k) (st, nbs) (Suc (Suc n)))
      = fst (scan_pure (multi_step_fn cfg (example_externals ovf) ld k) (st', nbs') (Suc n))"
    by (simp only: scan_fst_Suc [of _ "(st, nbs)"] f)
  with Suc.IH [of st' nbs'] nbs' show ?case by (simp add: comp_def)
qed

lemma scan_multi_no_buffer_overflow:
  "\<not> list_ex did_buffer_overflow
       (snd (fst (scan_pure (multi_step_fn cfg (example_externals False) ld k) (st, nbs) (Suc n))))"
  unfolding scan_multi_nbrs by (simp add: list_ex_iff)

lemma scan_first_out:
  "snd (scan_pure f c (Suc n)) = snd (f c) # snd (scan_pure f (fst (f c)) n)"
  by (simp split: prod.splits)

lemma tight_chunk_rcut_overflow:
  "list_ex (\<lambda>(pos, vel, rcut_overflow). rcut_overflow)
     (snd (scan_pure (multi_step_fn tight_config (example_externals False) ld (Suc k))
        (\<lparr>st_position = [(x, 0, 0)], st_velocity = [(1 / 10, 0, 0)], st_box = b\<rparr>, nbs) (Suc n)))"
  unfolding scan_first_out tight_multi_step by (simp split: prod.splits)

lemma loop_body_rcut_only:
  assumes nl: "use_neighborlist cfg" and pe: "0 < print_every cfg" and ue: "0 < update_every s"
    and nb: "\<not> list_ex did_buffer_overflow
       (snd (fst (scan_pure (multi_step_fn cfg ext (neighborlist s) (multi_step_every s))
           (cur_state s, nbrs_list s) (print_every cfg div update_every s))))"
    and rc: "list_ex (\<lambda>(pos, vel, rcut_overflow). rcut_overflow)
       (snd (scan_pure (multi_step_fn cfg ext (neighborlist s) (multi_step_every s))
           (cur_state s, nbrs_list s) (print_every cfg div update_every s)))"
  shows "loop_body cfg ext s =
      (if update_every s = 1
            then Inr (Break, (report cfg ext s)\<lparr>NBRS_FLAG := False,
                    printed := printed (report cfg ext s) @ [RcutError]\<rparr>)
            else Inr (Continue, (report cfg ext s)\<lparr>NBRS_FLAG := False,
                    update_every := max (update_every s div 2) 1,
                    multi_step_every := max (update_every s div 2) 1,
                    printed := printed (report cfg ext s)
                               @ [RcutDecrease (max (update_every s div 2) 1)]\<rparr>))"
proof -
  obtain state_new nbrs_new outs where
    chunk: "scan_pure (multi_step_fn cfg ext (neighborlist s) (multi_step_every s))
           (cur_state s, nbrs_list s) (print_every cfg div update_every s)
         = ((state_new, nbrs_new), outs)"
    by (metis surj_pair)
  from nb rc chunk have "\<not> list_ex did_buffer_overflow nbrs_new"
    "list_ex (\<lambda>(pos, vel, rcut_overflow). rcut_overflow) outs" by simp_all
  then show ?thesis
    by (simp add: loop_body_neighborlist [OF nl pe ue chunk])
qed

lemma tight_initial:
  "initial_loop_state tight_config (example_externals ovf) example_start =
     \<lparr>cur_i = 0, NBRS_FLAG = False, buffer_size = 6 / 5, update_every = 5, multi_step_every = 5,
      cur_state = example_start,
      nbrs_list = [\<lparr>idx = [], reference_position = [(0, 0, 0)], did_buffer_overflow = False,
                    nbrs_nm = 6 / 5\<rparr>],
      neighborlist = 6 / 5, model_devi = 0, pos_traj = [], vel_traj = [], model_devi_traj = [],
      printed = []\<rparr>"
  by (simp add: initial_loop_state_def tight_config_def example_config_def example_externals_def
      example_start_def wrap_positions_def vec_map_def py_fmod_def Let_def)

lemma tight_loop_body:
  assumes "cur_state s = example_start" and "update_every s = u" and "multi_step_every s = Suc k"
    and "0 < u" and "0 < 5 div u"
  shows "loop_body tight_config (example_externals False) s =
      (if u = 1
            then Inr (Break, (report tight_config (example_externals False) s)\<lparr>NBRS_FLAG := False,
                    printed := printed (report tight_config (example_externals False) s) @ [RcutError]\<rparr>)
            else Inr (Continue, (report tight_config (example_externals False) s)\<lparr>NBRS_FLAG := False,
                    update_every := max (u div 2) 1,
                    multi_step_every := max (u div 2) 1,
                    printed := printed (report tight_config (example_externals False) s)
                               @ [RcutDecrease (max (u div 2) 1)]\<rparr>))"
proof -
  have nl: "use_neighborlist tight_config" and pe: "0 < print_every tight_config"
    and p5: "print_every tight_config = 5"
    by (simp_all add: tight_config_def example_config_def)
  from assms(4,5) obtain n where n: "5 div u = Suc n" by (cases "5 div u") simp_all
  have ue: "0 < update_every s" using assms by simp
  show ?thesis
    using loop_body_rcut_only [OF nl pe ue, of "example_externals False"]
      scan_multi_no_buffer_overflow [of tight_config "neighborlist s" "Suc k" example_start "nbrs_list s" n]
      tight_chunk_rcut_overflow [of "neighborlist s" k 0 "[10, 10, 10]" "nbrs_list s" n]
    by (simp add: assms(1,2,3) p5 n example_start_def)
qed

lemma example_cfg_fields:
  "use_neighborlist example_config" "print_every example_config = 5"
  "total_steps example_config = 5" "save_every example_config = 2"
  "\<not> use_model_devi example_config" "sim_box example_config = (10, 10, 10)"
  by (simp_all add: example_config_def)

lemma tight_cfg_fields:
  "use_neighborlist tight_config" "print_every tight_config = 5"
  "total_steps tight_config = 5" "save_every tight_config = 2"
  "\<not> use_model_devi tight_config" "sim_box tight_config = (10, 10, 10)"
  by (simp_all add: tight_config_def example_config_def)

lemma example_loop_body:
  "loop_body example_config (example_externals False)
     (initial_loop_state example_config (example_externals False) example_start) =
   Inr (Fallthrough,
     (initial_loop_state example_config (example_externals False) example_start)
       \<lparr>cur_i := 5, cur_state := example_start\<lparr>st_position := [(1 / 2, 0, 0)]\<rparr>,
        printed := [Report 0],
        pos_traj := [[[(1 / 5, 0, 0)], [(2 / 5, 0, 0)]]],
        vel_traj := [[[(1 / 5, 0, 0)], [(2 / 5, 0, 0)]]],
        model_devi_traj := [0]\<rparr>)"
proof -
  let ?s = "initial_loop_state example_config (example_externals False) example_start"
  have nl: "use_neighborlist example_config" and pe: "0 < print_every example_config"
    by (simp_all add: example_cfg_fields)
  have ue: "0 < update_every ?s" by (simp add: example_initial)
  have chunk: "scan_pure (multi_step_fn example_config (example_externals False) (neighborlist ?s)
        (multi_step_every ?s)) (cur_state ?s, nbrs_list ?s)
        (print_every example_config div update_every ?s) =
     ((example_start\<lparr>st_position := [(1 / 2, 0, 0)]\<rparr>,
       map (\<lambda>nb. nb\<lparr>did_buffer_overflow := False\<rparr>) (nbrs_list ?s)),
      [([[(1 / 10, 0, 0)], [(1 / 5, 0, 0)], [(3 / 10, 0, 0)], [(2 / 5, 0, 0)], [(1 / 2, 0, 0)]],
        [[(1 / 10, 0, 0)], [(1 / 10, 0, 0)], [(1 / 10, 0, 0)], [(1 / 10, 0, 0)], [(1 / 10, 0, 0)]],
        False)])"
    using example_chunk_5 [of False "neighborlist ?s" "nbrs_list ?s"]
    by (simp add: example_initial example_cfg_fields)
  have sl: "slice_from (Suc 0) 2 [a, b, c, d, e] = [b, d]" for a b c d e :: "vec list"
  proof -
    have "[0..<(length [a, b, c, d, e] - Suc 0 + 2 - 1) div 2] = [0, 1]"
      by (simp add: upt_rec)
    then show ?thesis unfolding slice_from_def by simp
  qed
  show ?thesis
    unfolding loop_body_neighborlist [OF nl pe ue chunk]
    by (simp add: example_initial append_chunk_def example_cfg_fields report_def sl)
qed

lemma example_run:
  "simulate 1 example_config (example_externals False)
     (initial_loop_state example_config (example_externals False) example_start) =
   Some (Inr ([[(1 / 5, 0, 0)], [(2 / 5, 0, 0)]], [[(1 / 5, 0, 0)], [(2 / 5, 0, 0)]]))"
proof -
  have start: "cur_i (initial_loop_state example_config (example_externals False) example_start) = 0"
    by (simp add: example_initial)
  show ?thesis
    by (simp add: simulate_def start example_cfg_fields example_loop_body save_trajectory_def)
qed

lemma loop_body_buffer_overflow:
  assumes nl: "use_neighborlist cfg" and pe: "0 < print_every cfg" and ue: "0 < update_every s"
    and nb: "list_ex did_buffer_overflow
       (snd (fst (scan_pure (multi_step_fn cfg ext (neighborlist s) (multi_step_every s))
           (cur_state s, nbrs_list s) (print_every cfg div update_every s))))"
  shows "loop_body cfg ext s = Inr (Continue, on_buffer_overflow cfg ext (report cfg ext s))"
proof -
  obtain state_new nbrs_new outs where
    chunk: "scan_pure (multi_step_fn cfg ext (neighborlist s) (multi_step_every s))
           (cur_state s, nbrs_list s) (print_every cfg div update_every s)
         = ((state_new, nbrs_new), outs)"
    by (metis surj_pair)
  from nb chunk have "list_ex did_buffer_overflow nbrs_new" by simp
  then show ?thesis
    by (simp add: loop_body_neighborlist [OF nl pe ue chunk])
qed

text \<open>
  C3 (the code's behaviour). On a buffer overflow with \<open>NBRS_FLAG\<close> set, the body raises
  \<open>buffer_size\<close> by 0.05 and continues, but the list is reallocated by the loader object
  the loop started with: the loader built from the raised size at line 157 is not kept. On
  a cutoff-buffer overflow alone at update interval 1, the body prints the error and leaves
  the loop, the step counter unchanged.
\<close>

theorem C3_second_overflow_keeps_old_loader:
  assumes nl: "use_neighborlist cfg" and pe: "0 < print_every cfg" and ue: "0 < update_every s"
    and chunk: "scan_pure (multi_step_fn cfg ext (neighborlist s) (multi_step_every s))
           (cur_state s, nbrs_list s) (print_every cfg div update_every s)
         = ((state_new, nbrs_new), outs)"
  shows "(list_ex did_buffer_overflow nbrs_new \<and> NBRS_FLAG s \<longrightarrow>
            (\<exists>s'. loop_body cfg ext s = Inr (Continue, s')
               \<and> buffer_size s' = buffer_size s + 0.05
               \<and> neighborlist s' = neighborlist s
               \<and> nbrs_list s' = loader_allocate ext (neighborlist s)
                                  (wrap_positions (sim_box cfg) (st_position (cur_state s)))))
       \<and> (\<not> list_ex did_buffer_overflow nbrs_new
          \<and> list_ex (\<lambda>(pos, vel, rcut_overflow). rcut_overflow) outs \<and> update_every s = 1 \<longrightarrow>
            (\<exists>s'. loop_body cfg ext s = Inr (Break, s')
               \<and> printed s' = printed (report cfg ext s) @ [RcutError]
               \<and> cur_i s' = cur_i s))"
  by (simp add: loop_body_neighborlist [OF nl pe ue chunk] on_buffer_overflow_second)

lemma tight_chunk_overflows:
  assumes "0 < k" and "0 < n"
  shows "list_ex (\<lambda>(pos, vel, rcut_overflow). rcut_overflow)
     (snd (scan_pure (multi_step_fn tight_config (example_externals False) ld k)
        (example_start, nbs) n))"
proof -
  from assms obtain k' n' where k: "k = Suc k'" and n: "n = Suc n'"
    by (cases k; cases n) simp_all
  show ?thesis
    unfolding example_start_def k n by (rule tight_chunk_rcut_overflow)
qed

lemma tight_body_initial:
  "loop_body tight_config (example_externals False)
     (initial_loop_state tight_config (example_externals False) example_start) =
   Inr (Continue, tight_state_2)"
proof -
  let ?s = "initial_loop_state tight_config (example_externals False) example_start"
  have "loop_body tight_config (example_externals False) ?s =
      Inr (Continue, (report tight_config (example_externals False) ?s)\<lparr>NBRS_FLAG := False,
                    update_every := max (5 div 2) 1,
                    multi_step_every := max (5 div 2) 1,
                    printed := printed (report tight_config (example_externals False) ?s)
                               @ [RcutDecrease (max (5 div 2) 1)]\<rparr>)"
    using tight_loop_body [of ?s 5 4] by (simp add: tight_initial)
  then show ?thesis
    by (simp add: tight_initial report_def tight_cfg_fields tight_state_2_def)
qed

lemma tight_body_2:
  "loop_body tight_config (example_externals False) tight_state_2 = Inr (Continue, tight_state_1)"
proof -
  have "loop_body tight_config (example_externals False) tight_state_2 =
      Inr (Continue, (report tight_config (example_externals False) tight_state_2)\<lparr>NBRS_FLAG := False,
                    update_every := max (2 div 2) 1,
                    multi_step_every := max (2 div 2) 1,
                    printed := printed (report tight_config (example_externals False) tight_state_2)
                               @ [RcutDecrease (max (2 div 2) 1)]\<rparr>)"
    using tight_loop_body [of tight_state_2 2 1] by (simp add: tight_state_2_def)
  then show ?thesis
    by (simp add: report_def tight_cfg_fields tight_state_2_def tight_state_1_def)
qed

lemma tight_body_1:
  "loop_body tight_config (example_externals False) tight_state_1 =
     Inr (Break, tight_state_1\<lparr>printed := printed tight_state_1 @ [Report 0, RcutError]\<rparr>)"
proof -
  have "loop_body tight_config (example_externals False) tight_state_1 =
      Inr (Break, (report tight_config (example_externals False) tight_state_1)\<lparr>NBRS_FLAG := False,
                    printed := printed (report tight_config (example_externals False) tight_state_1)
                               @ [RcutError]\<rparr>)"
    using tight_loop_body [of tight_state_1 1 0] by (simp add: tight_state_1_def tight_state_2_def)
  then show ?thesis
    by (simp add: report_def tight_cfg_fields tight_state_2_def tight_state_1_def)
qed

lemma tight_run:
  "run_loop 3 tight_config (example_externals False)
     (initial_loop_state tight_config (example_externals False) example_start) =
   Some (Inr (tight_state_1\<lparr>printed := printed tight_state_1 @ [Report 0, RcutError]\<rparr>))"
proof -
  have i0: "cur_i (initial_loop_state tight_config (example_externals False) example_start) = 0"
    "cur_i tight_state_2 = 0" "cur_i tight_state_1 = 0"
    by (simp_all add: tight_initial tight_state_2_def tight_state_1_def)
  show ?thesis
    by (simp add: eval_nat_numeral i0 tight_cfg_fields [simplified eval_nat_numeral]
        tight_body_initial tight_body_2 tight_body_1)
qed

text \<open>
  C4 as stated fails. With buffer radius 0.1 the loop halves \<open>update_every\<close> from 5 to 2
  to 1; the next chunk overflows again and the body leaves the loop instead of rerunning
  the chunk: the run ends after three passes with the step counter at 0 of 5 steps.
\<close>

theorem C4_abort_does_not_rerun:
  "loop_body tight_config (example_externals False) tight_state_1 =
     Inr (Break, tight_state_1\<lparr>printed := printed tight_state_1 @ [Report 0, RcutError]\<rparr>)
   \<and> list_ex (\<lambda>(pos, vel, rcut_overflow). rcut_overflow)
       (snd (scan_pure (multi_step_fn tight_config (example_externals False)
                          (neighborlist tight_state_1) (multi_step_every tight_state_1))
               (cur_state tight_state_1, nbrs_list tight_state_1)
               (print_every tight_config div update_every tight_state_1)))
   \<and> run_loop 3 tight_config (example_externals False)
         (initial_loop_state tight_config (example_externals False) example_start) =
       Some (Inr (tight_state_1\<lparr>printed := printed tight_state_1 @ [Report 0, RcutError]\<rparr>))
   \<and> cur_i tight_state_1 < total_steps tight_config"
proof -
  have cs: "cur_state tight_state_1 = example_start"
    by (simp add: tight_state_1_def tight_state_2_def)
  have "list_ex (\<lambda>(pos, vel, rcut_overflow). rcut_overflow)
       (snd (scan_pure (multi_step_fn tight_config (example_externals False)
                          (neighborlist tight_state_1) (multi_step_every tight_state_1))
               (cur_state tight_state_1, nbrs_list tight_state_1)
               (print_every tight_config div update_every tight_state_1)))"
    unfolding cs by (rule tight_chunk_overflows)
      (simp_all add: tight_state_1_def tight_state_2_def tight_cfg_fields)
  moreover have "cur_i tight_state_1 < total_steps tight_config"
    by (simp add: tight_state_1_def tight_state_2_def tight_cfg_fields)
  ultimately show ?thesis using tight_body_1 tight_run by simp
qed

lemma scan_multi_nbrs_pos:
  assumes "0 < n"
  shows "snd (fst (scan_pure (multi_step_fn cfg (example_externals ovf) ld k) (st, nbs) n)) =
     map (\<lambda>nb. nb\<lparr>did_buffer_overflow := ovf\<rparr>) nbs"
proof -
  from assms obtain n' where n: "n = Suc n'" by (cases n) simp_all
  show ?thesis unfolding n by (rule scan_multi_nbrs)
qed

lemma flagged_body_initial:
  "loop_body example_config (example_externals True)
     (initial_loop_state example_config (example_externals True) example_start) =
   Inr (Continue, flagged_state)"
proof -
  let ?s = "initial_loop_state example_config (example_externals True) example_start"
  have nl: "use_neighborlist example_config" and pe: "0 < print_every example_config"
    by (simp_all add: example_cfg_fields)
  have ue: "0 < update_every ?s" by (simp add: example_initial)
  have n: "0 < print_every example_config div update_every ?s"
    by (simp add: example_initial example_cfg_fields)
  have "list_ex did_buffer_overflow
       (snd (fst (scan_pure (multi_step_fn example_config (example_externals True)
            (neighborlist ?s) (multi_step_every ?s))
           (cur_state ?s, nbrs_list ?s) (print_every example_config div update_every ?s))))"
    unfolding scan_multi_nbrs_pos [OF n] by (simp add: example_initial)
  from loop_body_buffer_overflow [OF nl pe ue this] show ?thesis
    by (simp add: on_buffer_overflow_def report_def example_initial example_cfg_fields
        flagged_state_def Let_def)
      (simp add: example_externals_def example_start_def wrap_positions_def vec_map_def
        py_fmod_def)
qed

text \<open>
  The amended C4 at update interval 2 with buffer radius 0.1 (a cutoff-buffer overflow:
  the chunk is discarded, the interval becomes 1, the lists stay), and on the first chunk
  of the run whose lists report a buffer overflow (the chunk is discarded and the lists
  are reallocated at the starting positions, the interval stays 5).
\<close>

theorem C4_overflow_discards_chunk_witness:
  "(\<exists>fl s'. loop_body tight_config (example_externals False) tight_state_2 = Inr (fl, s')
      \<and> cur_state s' = example_start \<and> cur_i s' = 0 \<and> pos_traj s' = [] \<and> vel_traj s' = []
      \<and> fl = Continue
      \<and> nbrs_list s' = nbrs_list tight_state_2
      \<and> update_every s' = 1 \<and> multi_step_every s' = 1
      \<and> run_loop (Suc (Suc 0)) tight_config (example_externals False) tight_state_2 =
          run_loop (Suc 0) tight_config (example_externals False) s')
   \<and> (\<exists>fl s'. loop_body example_config (example_externals True)
          (initial_loop_state example_config (example_externals True) example_start)
        = Inr (fl, s')
      \<and> cur_state s' = example_start \<and> cur_i s' = 0 \<and> pos_traj s' = [] \<and> vel_traj s' = []
      \<and> fl = Continue
      \<and> nbrs_list s' = loader_allocate (example_externals True) 1.2 [(0, 0, 0)]
      \<and> update_every s' = 5 \<and> multi_step_every s' = 5)"
proof -
  let ?s = tight_state_2
  let ?F = "example_externals False" and ?T = "example_externals True"
  have nl: "use_neighborlist tight_config" and pe: "0 < print_every tight_config"
    by (simp_all add: tight_cfg_fields)
  have ue: "0 < update_every ?s" and u2: "update_every ?s = 2"
    and cs: "cur_state ?s = example_start"
    and fields: "cur_i ?s = 0" "pos_traj ?s = []" "vel_traj ?s = []"
    and n: "0 < print_every tight_config div update_every ?s"
    by (simp_all add: tight_state_2_def tight_cfg_fields)
  obtain state_new nbrs_new outs where
    chunk: "scan_pure (multi_step_fn tight_config ?F (neighborlist ?s)
              (multi_step_every ?s)) (cur_state ?s, nbrs_list ?s)
              (print_every tight_config div update_every ?s) = ((state_new, nbrs_new), outs)"
    by (metis surj_pair)
  have "list_ex (\<lambda>(pos, vel, rcut_overflow). rcut_overflow)
       (snd (scan_pure (multi_step_fn tight_config ?F
                          (neighborlist ?s) (multi_step_every ?s))
               (cur_state ?s, nbrs_list ?s) (print_every tight_config div update_every ?s)))"
    unfolding cs by (rule tight_chunk_overflows) (simp_all add: tight_state_2_def tight_cfg_fields)
  with chunk have ov: "list_ex did_buffer_overflow nbrs_new
      \<or> list_ex (\<lambda>(pos, vel, rcut_overflow). rcut_overflow) outs" by simp
  have "nbrs_new = map (\<lambda>nb. nb\<lparr>did_buffer_overflow := False\<rparr>) (nbrs_list ?s)"
    using scan_multi_nbrs_pos [OF n, of tight_config False "neighborlist ?s"
        "multi_step_every ?s" "cur_state ?s" "nbrs_list ?s"] chunk by simp
  then have no: "\<not> list_ex did_buffer_overflow nbrs_new" by (simp add: list_ex_iff)
  have more: "cur_i ?s < total_steps tight_config"
    by (simp add: tight_state_2_def tight_cfg_fields)
  from C4_overflow_discards_chunk [OF nl pe ue chunk ov more, of "Suc 0"]
  obtain fl s' where body: "loop_body tight_config ?F ?s = Inr (fl, s')"
    and same: "cur_state s' = cur_state ?s" "cur_i s' = cur_i ?s"
      "pos_traj s' = pos_traj ?s" "vel_traj s' = vel_traj ?s"
    and fl: "fl = (if \<not> list_ex did_buffer_overflow nbrs_new \<and> update_every ?s = 1
                  then Break else Continue)"
    and nb: "nbrs_list s' =
               (if list_ex did_buffer_overflow nbrs_new
                then loader_allocate ?F (neighborlist ?s)
                       (wrap_positions (sim_box tight_config) (st_position (cur_state ?s)))
                else nbrs_list ?s)"
    and up: "update_every s' =
               (if list_ex did_buffer_overflow nbrs_new \<or> update_every ?s = 1
                then update_every ?s else max (update_every ?s div 2) 1)"
    and mu: "multi_step_every s' =
               (if list_ex did_buffer_overflow nbrs_new \<or> update_every ?s = 1
                then multi_step_every ?s else max (update_every ?s div 2) 1)"
    and run: "run_loop (Suc (Suc 0)) tight_config ?F ?s =
               (if \<not> list_ex did_buffer_overflow nbrs_new \<and> update_every ?s = 1
                then Some (Inr s')
                else run_loop (Suc 0) tight_config ?F s')"
    by blast
  from fl have fl': "fl = Continue" by (simp add: u2)
  from nb no have nb': "nbrs_list s' = nbrs_list ?s" by simp
  from up no have up': "update_every s' = 1" by (simp add: u2)
  from mu no have mu': "multi_step_every s' = 1" by (simp add: u2)
  from run have run': "run_loop (Suc (Suc 0)) tight_config ?F ?s =
      run_loop (Suc 0) tight_config ?F s'"
    by (simp add: u2 del: run_loop.simps)
  from body same fl' nb' up' mu' run' have first:
    "\<exists>fl s'. loop_body tight_config ?F ?s = Inr (fl, s')
      \<and> cur_state s' = example_start \<and> cur_i s' = 0 \<and> pos_traj s' = [] \<and> vel_traj s' = []
      \<and> fl = Continue
      \<and> nbrs_list s' = nbrs_list ?s
      \<and> update_every s' = 1 \<and> multi_step_every s' = 1
      \<and> run_loop (Suc (Suc 0)) tight_config ?F ?s = run_loop (Suc 0) tight_config ?F s'"
    unfolding cs fields by blast
  let ?i = "initial_loop_state example_config ?T example_start"
  have inl: "use_neighborlist example_config" and ipe: "0 < print_every example_config"
    by (simp_all add: example_cfg_fields)
  have iue: "0 < update_every ?i" and i5: "update_every ?i = 5" "multi_step_every ?i = 5"
    and ics: "cur_state ?i = example_start"
    and ifields: "cur_i ?i = 0" "pos_traj ?i = []" "vel_traj ?i = []"
    and ild: "neighborlist ?i = 1.2"
    and inbs: "nbrs_list ?i \<noteq> []"
    and inn: "0 < print_every example_config div update_every ?i"
    by (simp_all add: example_initial example_cfg_fields)
  obtain istate_new inbrs_new iouts where
    ichunk: "scan_pure (multi_step_fn example_config ?T (neighborlist ?i) (multi_step_every ?i))
              (cur_state ?i, nbrs_list ?i) (print_every example_config div update_every ?i)
            = ((istate_new, inbrs_new), iouts)"
    by (metis surj_pair)
  have "inbrs_new = map (\<lambda>nb. nb\<lparr>did_buffer_overflow := True\<rparr>) (nbrs_list ?i)"
    using scan_multi_nbrs_pos [OF inn, of example_config True "neighborlist ?i"
        "multi_step_every ?i" "cur_state ?i" "nbrs_list ?i"] ichunk by simp
  with inbs have iov: "list_ex did_buffer_overflow inbrs_new"
    by (cases "nbrs_list ?i") simp_all
  then have iov': "list_ex did_buffer_overflow inbrs_new
      \<or> list_ex (\<lambda>(pos, vel, rcut_overflow). rcut_overflow) iouts" by simp
  have imore: "cur_i ?i < total_steps example_config"
    by (simp add: example_initial example_cfg_fields)
  from C4_overflow_discards_chunk [OF inl ipe iue ichunk iov' imore, of 0]
  obtain ifl is' where ibody: "loop_body example_config ?T ?i = Inr (ifl, is')"
    and isame: "cur_state is' = cur_state ?i" "cur_i is' = cur_i ?i"
      "pos_traj is' = pos_traj ?i" "vel_traj is' = vel_traj ?i"
    and ifl: "ifl = (if \<not> list_ex did_buffer_overflow inbrs_new \<and> update_every ?i = 1
                  then Break else Continue)"
    and inb: "nbrs_list is' =
               (if list_ex did_buffer_overflow inbrs_new
                then loader_allocate ?T (neighborlist ?i)
                       (wrap_positions (sim_box example_config) (st_position (cur_state ?i)))
                else nbrs_list ?i)"
    and iup: "update_every is' =
               (if list_ex did_buffer_overflow inbrs_new \<or> update_every ?i = 1
                then update_every ?i else max (update_every ?i div 2) 1)"
    and imu: "multi_step_every is' =
               (if list_ex did_buffer_overflow inbrs_new \<or> update_every ?i = 1
                then multi_step_every ?i else max (update_every ?i div 2) 1)"
    by blast
  from ifl iov have ifl': "ifl = Continue" by simp
  have "wrap_positions (sim_box example_config) (st_position example_start) = [(0, 0, 0)]"
    by (simp add: example_cfg_fields example_start_def wrap_positions_def vec_map_def
        py_fmod_def)
  with inb iov have inb': "nbrs_list is' = loader_allocate ?T 1.2 [(0, 0, 0)]"
    by (simp add: ild ics)
  from iup iov have iup': "update_every is' = 5" by (simp add: i5)
  from imu iov have imu': "multi_step_every is' = 5" by (simp add: i5)
  from ibody isame ifl' inb' iup' imu' have second:
    "\<exists>fl s'. loop_body example_config ?T ?i = Inr (fl, s')
      \<and> cur_state s' = example_start \<and> cur_i s' = 0 \<and> pos_traj s' = [] \<and> vel_traj s' = []
      \<and> fl = Continue
      \<and> nbrs_list s' = loader_allocate ?T 1.2 [(0, 0, 0)]
      \<and> update_every s' = 5 \<and> multi_step_every s' = 5"
    unfolding ics ifields by blast
  from first second show ?thesis by blast
qed

text \<open>
  C3 at two overflows in a row from the start: \<open>buffer_size\<close> becomes 1.25, and the
  reallocated list carries the size 1.2 of the loader that allocated it, where a loader
  built from the new size would carry 1.25. At update interval 1 with buffer radius 0.1
  the body prints the error and stops.
\<close>

theorem C3_second_overflow_keeps_old_loader_witness:
  "loop_body example_config (example_externals True)
     (initial_loop_state example_config (example_externals True) example_start) =
     Inr (Continue, flagged_state)
   \<and> (\<exists>s'. loop_body example_config (example_externals True) flagged_state = Inr (Continue, s')
         \<and> buffer_size s' = 1.25 \<and> neighborlist s' = 1.2
         \<and> map nbrs_nm (nbrs_list s') = [1.2]
         \<and> NeighborListLoader (example_externals True) (buffer_size s') = 1.25)
   \<and> (\<exists>s'. loop_body tight_config (example_externals False) tight_state_1 = Inr (Break, s')
         \<and> printed s' = printed tight_state_1 @ [Report 0, RcutError]
         \<and> cur_i s' = 0)"
proof -
  let ?s = flagged_state and ?t = tight_state_1
  let ?T = "example_externals True" and ?F = "example_externals False"
  have nl: "use_neighborlist example_config" and pe: "0 < print_every example_config"
    and tnl: "use_neighborlist tight_config" and tpe: "0 < print_every tight_config"
    by (simp_all add: example_cfg_fields tight_cfg_fields)
  have ue: "0 < update_every ?s" and flag: "NBRS_FLAG ?s"
    and n: "0 < print_every example_config div update_every ?s"
    and bs: "buffer_size ?s = 1.2" and ld: "neighborlist ?s = 1.2"
    and nbs: "nbrs_list ?s \<noteq> []"
    by (simp_all add: flagged_state_def example_initial example_cfg_fields)
  have tue: "0 < update_every ?t" and t1: "update_every ?t = 1"
    and tn: "0 < print_every tight_config div update_every ?t"
    and tk: "0 < multi_step_every ?t"
    and tcs: "cur_state ?t = example_start" and ti: "cur_i ?t = 0"
    by (simp_all add: tight_state_1_def tight_state_2_def tight_cfg_fields)
  obtain state_new nbrs_new outs where
    chunk: "scan_pure (multi_step_fn example_config ?T (neighborlist ?s) (multi_step_every ?s))
              (cur_state ?s, nbrs_list ?s) (print_every example_config div update_every ?s)
            = ((state_new, nbrs_new), outs)"
    by (metis surj_pair)
  obtain tstate_new tnbrs_new touts where
    tchunk: "scan_pure (multi_step_fn tight_config ?F (neighborlist ?t) (multi_step_every ?t))
              (cur_state ?t, nbrs_list ?t) (print_every tight_config div update_every ?t)
            = ((tstate_new, tnbrs_new), touts)"
    by (metis surj_pair)
  have "nbrs_new = map (\<lambda>nb. nb\<lparr>did_buffer_overflow := True\<rparr>) (nbrs_list ?s)"
    using scan_multi_nbrs_pos [OF n, of example_config True "neighborlist ?s"
        "multi_step_every ?s" "cur_state ?s" "nbrs_list ?s"] chunk by simp
  with nbs have ov: "list_ex did_buffer_overflow nbrs_new"
    by (cases "nbrs_list ?s") simp_all
  have "tnbrs_new = map (\<lambda>nb. nb\<lparr>did_buffer_overflow := False\<rparr>) (nbrs_list ?t)"
    using scan_multi_nbrs_pos [OF tn, of tight_config False "neighborlist ?t"
        "multi_step_every ?t" "cur_state ?t" "nbrs_list ?t"] tchunk by simp
  then have tno: "\<not> list_ex did_buffer_overflow tnbrs_new" by (simp add: list_ex_iff)
  have "list_ex (\<lambda>(pos, vel, rcut_overflow). rcut_overflow)
       (snd (scan_pure (multi_step_fn tight_config ?F (neighborlist ?t) (multi_step_every ?t))
               (cur_state ?t, nbrs_list ?t) (print_every tight_config div update_every ?t)))"
    unfolding tcs by (rule tight_chunk_overflows [OF tk tn])
  with tchunk have trc: "list_ex (\<lambda>(pos, vel, rcut_overflow). rcut_overflow) touts" by simp
  from C3_second_overflow_keeps_old_loader [OF nl pe ue chunk] ov flag
  obtain s' where body: "loop_body example_config ?T ?s = Inr (Continue, s')"
    and b: "buffer_size s' = buffer_size ?s + 0.05"
    and l: "neighborlist s' = neighborlist ?s"
    and a: "nbrs_list s' = loader_allocate ?T (neighborlist ?s)
              (wrap_positions (sim_box example_config) (st_position (cur_state ?s)))"
    by blast
  have second: "\<exists>s'. loop_body example_config ?T ?s = Inr (Continue, s')
         \<and> buffer_size s' = 1.25 \<and> neighborlist s' = 1.2
         \<and> map nbrs_nm (nbrs_list s') = [1.2]
         \<and> NeighborListLoader ?T (buffer_size s') = 1.25"
  proof (intro exI [of _ s'] conjI)
    show "loop_body example_config ?T ?s = Inr (Continue, s')" by (rule body)
    show "buffer_size s' = 1.25" using b bs by simp
    show "neighborlist s' = 1.2" using l ld by simp
    show "map nbrs_nm (nbrs_list s') = [1.2]"
      unfolding a ld by (simp add: example_externals_def)
    show "NeighborListLoader ?T (buffer_size s') = 1.25"
      using b bs by (simp add: example_externals_def)
  qed
  from C3_second_overflow_keeps_old_loader [OF tnl tpe tue tchunk] tno trc t1
  obtain t' where tbody: "loop_body tight_config ?F ?t = Inr (Break, t')"
    and tp: "printed t' = printed (report tight_config ?F ?t) @ [RcutError]"
    and tc: "cur_i t' = cur_i ?t"
    by blast
  have "printed (report tight_config ?F ?t) = printed ?t @ [Report 0]"
    by (simp add: report_def ti tight_cfg_fields t1)
  with tbody tp tc ti have third: "\<exists>s'. loop_body tight_config ?F ?t = Inr (Break, s')
         \<and> printed s' = printed ?t @ [Report 0, RcutError] \<and> cur_i s' = 0"
    by simp
  from flagged_body_initial second third show ?thesis by blast
qed

text \<open>
  C1 on the five-step run: the frames saved under \<open>_vel\<close> are the positions 0.2 and 0.4
  of the second and fourth step, while every velocity of the chunk is 0.1.
\<close>

theorem C1_vel_file_is_pos_file_witness:
  "simulate 1 example_config (example_externals False)
     (initial_loop_state example_config (example_externals False) example_start) =
     Some (Inr ([[(1 / 5, 0, 0)], [(2 / 5, 0, 0)]], [[(1 / 5, 0, 0)], [(2 / 5, 0, 0)]]))
   \<and> fst (snd (snd (multi_step_fn example_config (example_externals False) 1.2 5
                         (example_start, []))))
     = [[(1 / 10, 0, 0)], [(1 / 10, 0, 0)], [(1 / 10, 0, 0)], [(1 / 10, 0, 0)], [(1 / 10, 0, 0)]]"
  using example_run C1_vel_file_is_pos_file [OF example_run]
  by (simp add: example_multi_step)

subsection \<open>Construction errors\<close>


lemma init_fn_call_raises: "call_energy_fn (init_fn_keywords a) = Inl (TypeError ''nbrs'')"
  by (simp add: call_energy_fn_def init_fn_keywords_def energy_fn_parameters_def)

lemma finish_init_raises: "finish_init a m tc rbox sa ra temp pres = Inl (TypeError ''nbrs'')"
  by (simp add: finish_init_def init_fn_call_raises)

lemma init_routine_cases:
  "init_routine a m tc rbox sa =
     (if routine a = ''NVE'' then Inl (TypeError ''nbrs'')
      else if routine a = ''NVT_Nose_Hoover'' then
        (if routine_args a ''temperature'' = None
         then Inl (ValueError ''temperature for NVT_Nose_Hoover'') else Inl (TypeError ''nbrs''))
      else if routine a = ''NPT_Nose_Hoover'' then
        (if routine_args a ''temperature'' = None
         then Inl (ValueError ''temperature for NPT_Nose_Hoover'')
         else if routine_args a ''pressure'' = None
         then Inl (ValueError ''pressure for NPT_Nose_Hoover'') else Inl (TypeError ''nbrs''))
      else Inl (NotImplementedError ''routine''))"
  by (auto simp: init_routine_def finish_init_raises Let_def split: option.splits)

text \<open>Every construction raises: no input reaches the end of \<open>__init__\<close>.\<close>

lemma Simulation_init_raises: "\<exists>e. Simulation_init clc mp a = Inl e"
  by (auto simp: Simulation_init_def Let_def init_routine_cases split: option.splits)









subsection \<open>The layout of the device blocks\<close>

lemma cumsum_from_nth:
  "k < length xs \<Longrightarrow> cumsum_from a xs ! k = a + sum_list (take (Suc k) xs)"
proof (induction xs arbitrary: a k)
  case Nil
  then show ?case by simp
next
  case (Cons x xs)
  then show ?case by (cases k) simp_all
qed

lemma last_cumsum_from: "xs \<noteq> [] \<Longrightarrow> last (cumsum_from a xs) = a + sum_list xs"
proof (induction xs arbitrary: a)
  case Nil
  then show ?case by simp
next
  case (Cons x xs)
  then show ?case by (cases xs) simp_all
qed

lemma cumsum_from_Nil_iff: "cumsum_from a xs = [] \<longleftrightarrow> xs = []"
  by (cases xs) simp_all

lemma length_type_count_new: "length (type_count_new tc K) = length tc"
  by (simp add: type_count_new_def)

lemma filled_nth:
  "k \<le> length tc \<Longrightarrow> type_idx_filled_each tc K ! k = sum_list (take k (type_count_new tc K))"
  by (cases k) (simp_all add: type_idx_filled_each_def cumsum_def cumsum_from_nth
      length_type_count_new)

lemma N_each_sum: "N_each tc K = sum_list (type_count_new tc K)"
  by (cases "type_count_new tc K")
    (simp_all add: N_each_def type_idx_filled_each_def cumsum_def last_cumsum_from
      cumsum_from_Nil_iff)

lemma type_count_new_nonneg:
  assumes "0 < K" and "list_all (\<lambda>t. 0 \<le> t) tc"
  shows "\<forall>c \<in> set (type_count_new tc K). 0 \<le> c"
proof
  fix c assume "c \<in> set (type_count_new tc K)"
  then obtain t where t: "t \<in> set tc" and c: "c = - ((- t) div K)"
    by (auto simp: type_count_new_def)
  from t assms(2) have "- t \<le> 0" by (simp add: list_all_iff)
  with assms(1) have "(- t) div K \<le> 0" by (simp add: div_nonpos_pos_le0)
  with c show "0 \<le> c" by simp
qed



lemma filled_step:
  assumes "i < length tc"
  shows "type_idx_filled_each tc K ! (i + 1) = type_idx_filled_each tc K ! i + type_count_new tc K ! i"
proof -
  have "i < length (type_count_new tc K)" using assms by (simp add: length_type_count_new)
  then have "take (Suc i) (type_count_new tc K)
             = take i (type_count_new tc K) @ [type_count_new tc K ! i]"
    by (rule take_Suc_conv_app_nth)
  then show ?thesis using assms by (simp add: filled_nth)
qed

lemma filled_bounds:
  assumes "0 < K" and "list_all (\<lambda>t. 0 \<le> t) tc" and "k \<le> length tc"
  shows "0 \<le> type_idx_filled_each tc K ! k" and "type_idx_filled_each tc K ! k \<le> N_each tc K"
proof -
  let ?xs = "type_count_new tc K"
  note nn = type_count_new_nonneg [OF assms(1,2)]
  have "\<forall>c \<in> set (take k ?xs). 0 \<le> c" using nn by (meson in_set_takeD)
  then have lo: "0 \<le> sum_list (take k ?xs)" by (simp add: sum_list_nonneg)
  have "\<forall>c \<in> set (drop k ?xs). 0 \<le> c" using nn by (meson in_set_dropD)
  then have "0 \<le> sum_list (drop k ?xs)" by (simp add: sum_list_nonneg)
  moreover have "sum_list ?xs = sum_list (take k ?xs) + sum_list (drop k ?xs)"
    by (metis append_take_drop_id sum_list_append)
  ultimately have hi: "sum_list (take k ?xs) \<le> sum_list ?xs" by simp
  show "0 \<le> type_idx_filled_each tc K ! k" using lo assms(3) by (simp add: filled_nth)
  show "type_idx_filled_each tc K ! k \<le> N_each tc K"
    using hi assms(3) by (simp add: filled_nth N_each_sum)
qed





text \<open>
  Conversely, an index that passes the test of type \<open>i\<close> is the slot of an atom of that
  type: the mask keeps exactly the atoms of its type.
\<close>

lemma type_cond_is_slot:
  assumes K: "0 < K" and tc: "list_all (\<lambda>t. 0 \<le> t) tc" and i: "i < length tc"
    and x: "0 \<le> x" and cond: "type_cond tc K i x"
  shows "\<exists>j. 0 \<le> j \<and> j < tc ! i \<and> x = slot_of tc K i j"
proof -
  let ?c = "type_count_new tc K ! i" and ?f = "type_idx_filled_each tc K ! i"
  let ?n = "N_each tc K"
  from cond filled_step [OF i, of K]
  have lo: "?f \<le> x mod ?n" and hi: "x mod ?n < ?f + ?c"
    and lt: "x - ?f - (x div ?n) * (?n - ?c) < tc ! i"
    by (simp_all add: type_cond_def Let_def)
  from lo hi have c: "0 < ?c" by linarith
  from filled_bounds(2) [OF K tc, of "i + 1"] i filled_step [OF i, of K]
  have fn: "?f + ?c \<le> ?n" by simp
  from filled_bounds(1) [OF K tc, of i] i have f0: "0 \<le> ?f" by simp
  from c fn f0 have n: "0 < ?n" by linarith
  define q where "q = x div ?n"
  define p where "p = x mod ?n - ?f"
  have q0: "0 \<le> q" using x n by (simp add: q_def pos_imp_zdiv_nonneg_iff)
  have p: "0 \<le> p" "p < ?c" using lo hi by (simp_all add: p_def)
  have "x = (x div ?n) * ?n + x mod ?n" by (rule div_mult_mod_eq [symmetric])
  then have xe: "x = q * ?n + (?f + p)" by (simp add: q_def p_def)
  define j where "j = q * ?c + p"
  have j0: "0 \<le> j" using q0 c p by (simp add: j_def)
  have "x - ?f - q * (?n - ?c) = j"
    unfolding j_def by (subst xe) (simp add: algebra_simps)
  with lt have jt: "j < tc ! i" by (simp add: q_def)
  have "j div ?c = q" "j mod ?c = p"
    unfolding j_def using p by (simp_all add: div_pos_pos_trivial mod_pos_pos_trivial)
  then have "slot_of tc K i j = x" using xe by (simp add: slot_of_def)
  with j0 jt show ?thesis by blast
qed

subsection \<open>The partitioner's overflow flag\<close>









subsection \<open>The two-device example, evaluated\<close>

















subsection \<open>Capacity across reallocations\<close>













lemma map_sum_fst_Inr: "map_sum id fst r = Inr a \<Longrightarrow> \<exists>b. r = Inr (a, b)"
  by (cases r) auto

lemma map_sum_snd_Inr: "map_sum id snd r = Inr b \<Longrightarrow> \<exists>a. r = Inr (a, b)"
  by (cases r) auto

subsection \<open>The two configurations, evaluated\<close>









































end
